theory Spec2Isabelle
  imports Complex_Main "HOL-Library.Multiset"
begin

section \<open>Data model (src/app/types/index.ts)\<close>

text \<open>
  The interfaces of the repository become records. A JavaScript string is a \<open>string\<close>
  (code units up to 255), a JavaScript number is a \<open>real\<close> (scores, deltas: the
  comparisons and differences are exact, the rounding of doubles is not modelled) or a
  \<open>nat\<close>/\<open>int\<close> (quarter numbers, years, counts). TypeScript's types are erased at run
  time and the trend analyzer guards every access to a sentiment or to the theme list
  with \<open>?.\<close>, so these three fields of \<open>QuarterlyInsights\<close> are optional in the model.
\<close>

record SentimentAnalysis =
  sentiment :: string
  score :: real
  confidence :: real
  keyPhrases :: "string list"
  reasoning :: string

record StrategicFocus =
  theme :: string
  mentions :: nat
  importance :: real
  quotes :: "string list"
  category :: string

record KeyMetrics =
  revenue :: "string option"
  guidance :: "string option"
  marketCap :: "string option"

record QuarterlyInsights =
  transcriptId :: string
  quarter :: string
  managementSentiment :: "SentimentAnalysis option"
  qaSentiment :: "SentimentAnalysis option"
  strategicFocuses :: "StrategicFocus list option"
  keyMetrics :: KeyMetrics
  generatedAt :: string

text \<open>The entries of \<open>TrendAnalysis\<close>; field names that occur in several interfaces
  carry the interface as a prefix.\<close>

record SentimentPoint =
  point_quarter :: string
  point_score :: real
  point_sentiment :: string

record SentimentTrend =
  management :: "SentimentPoint list"
  qa :: "SentimentPoint list"

datatype Significance = Major | Moderate | Minor

datatype Trend = Improving | Declining | Stable

record Change =
  scoreDelta :: real
  sentimentShift :: string
  significance :: Significance

record QuarterChange =
  change_quarter :: string
  managementChange :: Change
  qaChange :: Change

record ThemeEvolution =
  evolution_quarter :: string
  emergingThemes :: "string list"
  decliningThemes :: "string list"
  consistentThemes :: "string list"

record TrendSummary =
  managementTrend :: Trend
  qaTrend :: Trend
  strategicShift :: string
  keyChanges :: "string list"

record TrendAnalysis =
  quarters :: "string list"
  sentimentTrend :: SentimentTrend
  quarterOverQuarterChanges :: "QuarterChange list"
  strategicEvolution :: "ThemeEvolution list"
  overallTrendSummary :: TrendSummary

text \<open>The errors thrown in the code below: \<open>Invalid quarter format: <label>\<close> of the trend
  analyzer, and in the analysis engine a failed request, a \<open>SyntaxError\<close> of \<open>JSON.parse\<close>
  and a \<open>TypeError\<close> of a property read on \<open>null\<close>.\<close>

datatype error = InvalidQuarterFormat string | TransportError | SyntaxError | TypeError

section \<open>Trend analyzer (src/app/lib/trend-analyzer.ts)\<close>

subsection \<open>parseQuarter\<close>

text \<open>
  \<open>quarter.match(/Q(\d+)\s+(\d+)/)\<close>: the leftmost position where a \<open>Q\<close> is followed
  by one or more digits, one or more white-space characters and one or more digits.
  \<open>\d\<close> and \<open>\s\<close> are disjoint classes, so each greedy run is the maximal one and never
  gives a character back. The captures are the two digit runs.
\<close>

definition isDigit :: "char \<Rightarrow> bool" where
  "isDigit c = (c \<in> set ''0123456789'')"

definition isSpace :: "char \<Rightarrow> bool" where
  "isSpace c = (c \<in> set [CHR 0x09, CHR 0x0A, CHR 0x0B, CHR 0x0C, CHR 0x0D, CHR '' '', CHR 0xA0])"

definition matchHere :: "string \<Rightarrow> (string \<times> string) option" where
  "matchHere s =
     (case s of
        [] \<Rightarrow> None
      | c # rest \<Rightarrow>
          if c \<noteq> CHR ''Q'' then None
          else let d1 = takeWhile isDigit rest;
                   rest1 = dropWhile isDigit rest;
                   ws = takeWhile isSpace rest1;
                   rest2 = dropWhile isSpace rest1;
                   d2 = takeWhile isDigit rest2
               in if d1 = [] \<or> ws = [] \<or> d2 = [] then None else Some (d1, d2))"

fun quarterMatch :: "string \<Rightarrow> (string \<times> string) option" where
  "quarterMatch [] = None"
| "quarterMatch (c # cs) =
     (case matchHere (c # cs) of Some m \<Rightarrow> Some m | None \<Rightarrow> quarterMatch cs)"

text \<open>
  \<open>parseInt\<close> on a run of decimal digits returns a double: the decimal value when that is
  below \<open>2^53\<close>, and otherwise the nearest number with 53 significant bits, a tie going to
  the even one, or \<open>Infinity\<close> from \<open>2^1024\<close> on. The finite results are integers and are
  kept as such. (For a run of more than 20 digits ECMAScript lets an engine replace the
  digits after the 20th by zeros before it rounds; the model rounds the full value.)
\<close>

datatype JSNumber = Finite nat | Infinity

definition digitValue :: "char \<Rightarrow> nat" where
  "digitValue c = of_char c - 48"

definition decimalValue :: "string \<Rightarrow> nat" where
  "decimalValue ds = foldl (\<lambda>n c. 10 * n + digitValue c) 0 ds"

fun bitLength :: "nat \<Rightarrow> nat" where
  "bitLength n = (if n = 0 then 0 else Suc (bitLength (n div 2)))"

declare bitLength.simps [simp del]

definition roundToDouble :: "nat \<Rightarrow> JSNumber" where
  "roundToDouble n =
     (if n < 2 ^ 53 then Finite n
      else let e = bitLength n - 53;
               m = n div 2 ^ e;
               r = n mod 2 ^ e;
               half = 2 ^ (e - 1);
               rounded = (if r > half \<or> (r = half \<and> odd m) then m + 1 else m) * 2 ^ e
           in if rounded \<ge> 2 ^ 1024 then Infinity else Finite rounded)"

definition parseInt :: "string \<Rightarrow> JSNumber" where
  "parseInt ds = roundToDouble (decimalValue ds)"

record ParsedQuarter =
  q :: JSNumber
  year :: JSNumber

definition parseQuarter :: "string \<Rightarrow> error + ParsedQuarter" where
  "parseQuarter label =
     (case quarterMatch label of
        None \<Rightarrow> Inl (InvalidQuarterFormat label)
      | Some (m1, m2) \<Rightarrow> Inr \<lparr> q = parseInt m1, year = parseInt m2 \<rparr>)"

subsection \<open>sortInsightsByQuarter\<close>

text \<open>
  \<open>x - y\<close> on two results of \<open>parseInt\<close>, as the sort reads it: the sort looks at the sign
  of the number its comparator returns and takes \<open>NaN\<close> as 0. The double difference of
  two finite numbers has the sign of their exact difference, which the model returns;
  \<open>Infinity - Infinity\<close> is \<open>NaN\<close>.
\<close>

definition difference :: "JSNumber \<Rightarrow> JSNumber \<Rightarrow> int" where
  "difference x y =
     (case (x, y) of
        (Finite m, Finite n) \<Rightarrow> int m - int n
      | (Infinity, Finite n) \<Rightarrow> 1
      | (Finite m, Infinity) \<Rightarrow> - 1
      | (Infinity, Infinity) \<Rightarrow> 0)"

text \<open>
  The comparator passed to \<open>insights.sort\<close>: it parses the label of \<open>a\<close>, then the label
  of \<open>b\<close>, and returns the difference of the years or, for equal years, of the quarters.
  Either parse may throw.
\<close>

definition compareQuarters :: "QuarterlyInsights \<Rightarrow> QuarterlyInsights \<Rightarrow> error + int" where
  "compareQuarters a b =
     (case parseQuarter (quarter a) of
        Inl e \<Rightarrow> Inl e
      | Inr aQuarter \<Rightarrow>
          (case parseQuarter (quarter b) of
             Inl e \<Rightarrow> Inl e
           | Inr bQuarter \<Rightarrow>
               if year aQuarter \<noteq> year bQuarter
               then Inr (difference (year aQuarter) (year bQuarter))
               else Inr (difference (q aQuarter) (q bQuarter))))"

text \<open>
  \<open>Array.prototype.sort\<close> with a comparator. ECMAScript requires the sort to be stable,
  lets an exception of the comparator end the sort, and leaves the sequence of
  comparisons to the engine. The model is the insertion sort the engine runs on short
  arrays, with a linear search in place of the binary one: arrays of length 0 and 1 are
  returned without any call of the comparator; every later element \<open>x\<close> is compared with
  the elements \<open>y\<close> before it, from the last one down, by \<open>cmp x y\<close>, and moves in front of
  \<open>y\<close> while the result is negative. \<open>insertLast\<close> takes the sorted elements from the last to
  the first. With a comparator that orders the elements every stable sort returns the
  same list.
\<close>

fun insertLast :: "('a \<Rightarrow> 'a \<Rightarrow> error + int) \<Rightarrow> 'a \<Rightarrow> 'a list \<Rightarrow> error + 'a list" where
  "insertLast cmp x [] = Inr [x]"
| "insertLast cmp x (y # ys) =
     (case cmp x y of
        Inl e \<Rightarrow> Inl e
      | Inr c \<Rightarrow>
          if c < 0
          then (case insertLast cmp x ys of Inl e \<Rightarrow> Inl e | Inr r \<Rightarrow> Inr (y # r))
          else Inr (x # y # ys))"

fun sortLoop :: "('a \<Rightarrow> 'a \<Rightarrow> error + int) \<Rightarrow> 'a list \<Rightarrow> 'a list \<Rightarrow> error + 'a list" where
  "sortLoop cmp done [] = Inr (rev done)"
| "sortLoop cmp done (x # xs) =
     (case insertLast cmp x done of Inl e \<Rightarrow> Inl e | Inr done' \<Rightarrow> sortLoop cmp done' xs)"

definition Array_sort :: "('a \<Rightarrow> 'a \<Rightarrow> error + int) \<Rightarrow> 'a list \<Rightarrow> error + 'a list" where
  "Array_sort cmp xs = sortLoop cmp [] xs"

text \<open>
  \<open>insights.sort(...)\<close> sorts the caller's array in place and returns that same array.
  The model returns the outcome together with the content of the argument array after
  the call: the sorted list when the sort ends normally, the old content when the
  comparator throws (the sorted values are written back only at the end).
\<close>

definition sortInsightsByQuarter ::
  "QuarterlyInsights list \<Rightarrow> (error + QuarterlyInsights list) \<times> QuarterlyInsights list" where
  "sortInsightsByQuarter insights =
     (case Array_sort compareQuarters insights of
        Inl e \<Rightarrow> (Inl e, insights)
      | Inr sortedInsights \<Rightarrow> (Inr sortedInsights, sortedInsights))"

subsection \<open>Sentiment series and quarter-over-quarter changes\<close>

text \<open>\<open>s?.score || 0\<close> and \<open>s?.sentiment || 'neutral'\<close>: a missing sentiment and a falsy
  field (the number 0, the empty string) give the default.\<close>

definition scoreOf :: "SentimentAnalysis option \<Rightarrow> real" where
  "scoreOf s = (case s of None \<Rightarrow> 0 | Some a \<Rightarrow> if score a = 0 then 0 else score a)"

definition sentimentOf :: "SentimentAnalysis option \<Rightarrow> string" where
  "sentimentOf s =
     (case s of None \<Rightarrow> ''neutral'' | Some a \<Rightarrow> if sentiment a = [] then ''neutral'' else sentiment a)"

definition analyzeSentimentTrends :: "QuarterlyInsights list \<Rightarrow> SentimentTrend" where
  "analyzeSentimentTrends insights =
     \<lparr> management = map (\<lambda>i. \<lparr> point_quarter = quarter i,
                                point_score = scoreOf (managementSentiment i),
                                point_sentiment = sentimentOf (managementSentiment i) \<rparr>) insights,
       qa = map (\<lambda>i. \<lparr> point_quarter = quarter i,
                        point_score = scoreOf (qaSentiment i),
                        point_sentiment = sentimentOf (qaSentiment i) \<rparr>) insights \<rparr>"

text \<open>
  \<open>sentimentOrder[label]\<close>: the own properties of the table, the properties a plain
  object inherits from \<open>Object.prototype\<close>, and \<open>undefined\<close> for any other label. An
  inherited property is a built-in function, or for \<open>__proto__\<close> the prototype object; it
  is truthy, compares with a number as \<open>NaN\<close>, and compares with another inherited
  property by the text the engine prints for it (\<open>function toString() { [native code] }\<close>,
  \<open>function Object() { [native code] }\<close> for \<open>constructor\<close>, \<open>[object Object]\<close> for
  \<open>__proto__\<close>), code unit by code unit.
\<close>

datatype Lookup = Rank nat | Inherited string | Undefined

definition Object_prototype_keys :: "string list" where
  "Object_prototype_keys =
     [''constructor'', ''__defineGetter__'', ''__defineSetter__'', ''hasOwnProperty'',
      ''__lookupGetter__'', ''__lookupSetter__'', ''isPrototypeOf'', ''propertyIsEnumerable'',
      ''toString'', ''valueOf'', ''__proto__'', ''toLocaleString'']"

definition inheritedText :: "string \<Rightarrow> string" where
  "inheritedText key =
     (if key = ''__proto__'' then ''[object Object]''
      else ''function '' @ (if key = ''constructor'' then ''Object'' else key) @
           ''() { [native code] }'')"

definition sentimentOrder :: "string \<Rightarrow> Lookup" where
  "sentimentOrder label =
     (if label = ''negative'' then Rank 0
      else if label = ''neutral'' then Rank 1
      else if label = ''positive'' then Rank 2
      else if label \<in> set Object_prototype_keys then Inherited (inheritedText label)
      else Undefined)"

text \<open>\<open>sentimentOrder[label] || 1\<close>: \<open>undefined\<close> and the number 0 are falsy.\<close>

definition orOne :: "Lookup \<Rightarrow> Lookup" where
  "orOne v = (case v of Undefined \<Rightarrow> Rank 1 | Rank n \<Rightarrow> if n = 0 then Rank 1 else Rank n
              | Inherited text \<Rightarrow> Inherited text)"

fun stringLess :: "string \<Rightarrow> string \<Rightarrow> bool" where
  "stringLess [] [] = False"
| "stringLess [] (d # ds) = True"
| "stringLess (c # cs) [] = False"
| "stringLess (c # cs) (d # ds) =
     ((of_char c :: nat) < of_char d \<or> (c = d \<and> stringLess cs ds))"

definition greaterThan :: "Lookup \<Rightarrow> Lookup \<Rightarrow> bool" where
  "greaterThan a b =
     (case (a, b) of
        (Rank m, Rank n) \<Rightarrow> m > n
      | (Inherited s, Inherited t) \<Rightarrow> stringLess t s
      | _ \<Rightarrow> False)"

definition describeSentimentShift :: "string \<Rightarrow> string \<Rightarrow> string" where
  "describeSentimentShift from to =
     (if from = to then ''No change''
      else let fromScore = orOne (sentimentOrder from);
               toScore = orOne (sentimentOrder to)
           in if greaterThan toScore fromScore then ''Improved from '' @ from @ '' to '' @ to
              else if greaterThan fromScore toScore then ''Declined from '' @ from @ '' to '' @ to
              else ''No change'')"

definition getChangeSignificance :: "real \<Rightarrow> Significance" where
  "getChangeSignificance delta =
     (let absChange = \<bar>delta\<bar>
      in if absChange \<ge> 0.5 then Major
         else if absChange \<ge> 0.2 then Moderate
         else Minor)"

text \<open>
  The score delta is \<open>current - previous\<close>. The code subtracts doubles and stores the
  double nearest to the exact difference; the model stores the exact difference. The
  two agree whenever the exact difference is itself a double (0.75 - 0.5), and differ by
  the rounding otherwise (the doubles written 0.3 and 0.1 differ by a number just below
  the double written 0.2).
\<close>

definition sentimentChange :: "SentimentAnalysis option \<Rightarrow> SentimentAnalysis option \<Rightarrow> Change" where
  "sentimentChange previous current =
     (let delta = scoreOf current - scoreOf previous
      in \<lparr> scoreDelta = delta,
           sentimentShift = describeSentimentShift (sentimentOf previous) (sentimentOf current),
           significance = getChangeSignificance delta \<rparr>)"

text \<open>The loop \<open>for (let i = 1; i < insights.length; i++)\<close> pushes one entry per index.\<close>

definition analyzeQuarterChanges :: "QuarterlyInsights list \<Rightarrow> QuarterChange list" where
  "analyzeQuarterChanges insights =
     map (\<lambda>i. let current = insights ! i; previous = insights ! (i - 1)
              in \<lparr> change_quarter = quarter current,
                   managementChange =
                     sentimentChange (managementSentiment previous) (managementSentiment current),
                   qaChange = sentimentChange (qaSentiment previous) (qaSentiment current) \<rparr>)
         [1 ..< length insights]"

subsection \<open>Theme evolution\<close>

text \<open>\<open>new Set(names)\<close> keeps the first occurrence of every name, in insertion order;
  spreading the set gives that list.\<close>

fun Set_of :: "string list \<Rightarrow> string list" where
  "Set_of [] = []"
| "Set_of (x # xs) = x # filter (\<lambda>y. y \<noteq> x) (Set_of xs)"

text \<open>\<open>i.strategicFocuses?.map(f => f.theme) || []\<close>\<close>

definition themesOf :: "QuarterlyInsights \<Rightarrow> string list" where
  "themesOf i = (case strategicFocuses i of None \<Rightarrow> [] | Some fs \<Rightarrow> map theme fs)"

definition analyzeStrategicEvolution :: "QuarterlyInsights list \<Rightarrow> ThemeEvolution list" where
  "analyzeStrategicEvolution insights =
     map (\<lambda>i. let current = insights ! i;
                  previous = (if i > 0 then Some (insights ! (i - 1)) else None);
                  currentThemes = Set_of (themesOf current);
                  previousThemes = Set_of (case previous of None \<Rightarrow> [] | Some p \<Rightarrow> themesOf p)
              in \<lparr> evolution_quarter = quarter current,
                   emergingThemes = filter (\<lambda>t. t \<notin> set previousThemes) currentThemes,
                   decliningThemes =
                     (case previous of
                        None \<Rightarrow> []
                      | Some p \<Rightarrow> filter (\<lambda>t. t \<notin> set currentThemes) previousThemes),
                   consistentThemes = filter (\<lambda>t. t \<in> set previousThemes) currentThemes \<rparr>)
         [0 ..< length insights]"

subsection \<open>Overall summary\<close>

text \<open>\<open>lastScore - firstScore\<close> is the exact difference in the model, as the score delta is.\<close>

definition calculateOverallTrend :: "SentimentPoint list \<Rightarrow> Trend" where
  "calculateOverallTrend sentimentData =
     (if length sentimentData < 2 then Stable
      else let firstScore = point_score (sentimentData ! 0);
               lastScore = point_score (sentimentData ! (length sentimentData - 1));
               difference = lastScore - firstScore
           in if difference > 0.2 then Improving
              else if difference < - 0.2 then Declining
              else Stable)"

text \<open>
  The \<open>frequency\<close> object of \<open>getMostCommonTheme\<close> is the list of its own properties in
  creation order. It is a plain object, so a theme that names a property of
  \<open>Object.prototype\<close> reads the inherited value on its first occurrence: \<open>(value || 0) + 1\<close>
  is then a text, which is stored as an own property and stays a text on every later
  occurrence; the assignment to \<open>__proto__\<close> stores nothing. Any other theme is counted.
\<close>

datatype Count = Times nat | Text

fun increment :: "(string \<times> Count) list \<Rightarrow> string \<Rightarrow> (string \<times> Count) list" where
  "increment [] k =
     (if k = ''__proto__'' then []
      else if k \<in> set Object_prototype_keys then [(k, Text)]
      else [(k, Times 1)])"
| "increment ((k', v) # kvs) k =
     (if k' = k then (k', (case v of Times n \<Rightarrow> Times (n + 1) | Text \<Rightarrow> Text)) # kvs
      else (k', v) # increment kvs k)"

text \<open>\<open>Object.entries\<close> lists array-index keys first, in ascending numeric order, then the
  other keys in creation order.\<close>

definition isArrayIndex :: "string \<Rightarrow> bool" where
  "isArrayIndex k =
     (k \<noteq> [] \<and> list_all isDigit k \<and> (k = ''0'' \<or> hd k \<noteq> CHR ''0'') \<and>
      decimalValue k < 2 ^ 32 - 1)"

definition Object_entries :: "(string \<times> 'v) list \<Rightarrow> (string \<times> 'v) list" where
  "Object_entries obj =
     sort_key (\<lambda>(k, v). decimalValue k) (filter (\<lambda>(k, v). isArrayIndex k) obj)
     @ filter (\<lambda>(k, v). \<not> isArrayIndex k) obj"

text \<open>
  The comparator \<open>([,a], [,b]) => b - a\<close>: a text is not a number, so the difference is
  \<open>NaN\<close>, which the sort takes as 0. With texts among the values the comparator does not
  order the entries and the result depends on the comparisons the engine makes.
\<close>

definition compareCounts :: "string \<times> Count \<Rightarrow> string \<times> Count \<Rightarrow> error + int" where
  "compareCounts x y =
     (case (snd x, snd y) of
        (Times a, Times b) \<Rightarrow> Inr (int b - int a)
      | _ \<Rightarrow> Inr 0)"

text \<open>\<open>[0][0]\<close>: the key of the first entry; without any entry \<open>[0]\<close> is \<open>undefined\<close> and the
  second \<open>[0]\<close> throws a \<open>TypeError\<close>.\<close>

definition getMostCommonTheme :: "string list \<Rightarrow> error + string option" where
  "getMostCommonTheme themes =
     (if themes = [] then Inr None
      else let frequency = foldl increment [] themes
           in case Array_sort compareCounts (Object_entries frequency) of
                Inl e \<Rightarrow> Inl e
              | Inr [] \<Rightarrow> Inl TypeError
              | Inr ((k, v) # rest) \<Rightarrow> Inr (Some k))"

fun join :: "string \<Rightarrow> string list \<Rightarrow> string" where
  "join sep [] = []"
| "join sep [x] = x"
| "join sep (x # y # ys) = x @ sep @ join sep (y # ys)"

definition identifyKeyChanges :: "SentimentTrend \<Rightarrow> ThemeEvolution list \<Rightarrow> string list" where
  "identifyKeyChanges trend evolution =
     (let mgmtTrend = calculateOverallTrend (management trend);
          qaTrend' = calculateOverallTrend (qa trend);
          changes1 = (if mgmtTrend = Improving then [''Management sentiment has improved over time'']
                      else if mgmtTrend = Declining then [''Management sentiment has declined over time'']
                      else []);
          changes2 = changes1 @
                     (if qaTrend' = Improving then [''Q&A sentiment has become more positive'']
                      else if qaTrend' = Declining then [''Q&A sentiment has become more negative'']
                      else []);
          allEmergingThemes = concat (map emergingThemes evolution);
          changes3 = changes2 @
                     (if length allEmergingThemes > 0
                      then [''New strategic focus areas emerged: '' @ join '', '' (take 2 allEmergingThemes)]
                      else [])
      in if length changes3 > 0 then changes3
         else [''No significant changes detected across quarters''])"

definition generateTrendSummary ::
  "SentimentTrend \<Rightarrow> ThemeEvolution list \<Rightarrow> error + TrendSummary" where
  "generateTrendSummary trend evolution =
     (let allEmergingThemes = concat (map emergingThemes evolution)
      in case getMostCommonTheme allEmergingThemes of
           Inl e \<Rightarrow> Inl e
         | Inr mostCommon \<Rightarrow>
             Inr \<lparr> managementTrend = calculateOverallTrend (management trend),
                   qaTrend = calculateOverallTrend (qa trend),
                   strategicShift =
                     (case mostCommon of
                        None \<Rightarrow> ''No significant strategic shifts detected''
                      | Some t \<Rightarrow>
                          if t = [] then ''No significant strategic shifts detected'' else t),
                   keyChanges = identifyKeyChanges trend evolution \<rparr>)"

subsection \<open>The report\<close>

definition getEmptyTrendAnalysis :: "QuarterlyInsights list \<Rightarrow> TrendAnalysis" where
  "getEmptyTrendAnalysis insights =
     \<lparr> quarters = map quarter insights,
       sentimentTrend =
         \<lparr> management = map (\<lambda>i. \<lparr> point_quarter = quarter i,
                                    point_score = scoreOf (managementSentiment i),
                                    point_sentiment = sentimentOf (managementSentiment i) \<rparr>) insights,
           qa = map (\<lambda>i. \<lparr> point_quarter = quarter i,
                            point_score = scoreOf (qaSentiment i),
                            point_sentiment = sentimentOf (qaSentiment i) \<rparr>) insights \<rparr>,
       quarterOverQuarterChanges = [],
       strategicEvolution =
         map (\<lambda>i. \<lparr> evolution_quarter = quarter i,
                     emergingThemes = [],
                     decliningThemes = [],
                     consistentThemes = themesOf i \<rparr>) insights,
       overallTrendSummary =
         \<lparr> managementTrend = Stable,
           qaTrend = Stable,
           strategicShift = ''Insufficient data for trend analysis'',
           keyChanges = [''Need at least 2 quarters for comparison''] \<rparr> \<rparr>"

text \<open>
  \<open>analyzeQuarterOverQuarter\<close> returns the report, or the error thrown while sorting or in
  \<open>getMostCommonTheme\<close>, together with the content of the caller's array after the call.
\<close>

definition analyzeQuarterOverQuarter ::
  "QuarterlyInsights list \<Rightarrow> (error + TrendAnalysis) \<times> QuarterlyInsights list" where
  "analyzeQuarterOverQuarter insights =
     (case sortInsightsByQuarter insights of
        (Inl e, array) \<Rightarrow> (Inl e, array)
      | (Inr sortedInsights, array) \<Rightarrow>
          (if length sortedInsights < 2 then Inr (getEmptyTrendAnalysis sortedInsights)
           else let trend = analyzeSentimentTrends sortedInsights;
                    changes = analyzeQuarterChanges sortedInsights;
                    evolution = analyzeStrategicEvolution sortedInsights
                in case generateTrendSummary trend evolution of
                     Inl e \<Rightarrow> Inl e
                   | Inr summary \<Rightarrow>
                       Inr \<lparr> quarters = map quarter sortedInsights,
                             sentimentTrend = trend,
                             quarterOverQuarterChanges = changes,
                             strategicEvolution = evolution,
                             overallTrendSummary = summary \<rparr>,
           array))"

section \<open>Transcript collector (src/app/lib/transcript-collector.ts)\<close>

record EarningsTranscript =
  transcript_id :: string
  transcript_quarter :: string
  fiscalYear :: nat
  date :: string
  url :: string
  company :: string
  managementRemarks :: string
  qaSection :: string
  fullTranscript :: string
  participants :: "string list"
  createdAt :: string
  updatedAt :: string

subsection \<open>String helpers\<close>

text \<open>\<open>toLowerCase\<close> on code units up to 255: the letters \<open>A\<close> to \<open>Z\<close> and the upper-case
  letters of Latin-1 (0xC0 to 0xDE without the multiplication sign 0xD7).\<close>

definition upperCase :: string where
  "upperCase = ''ABCDEFGHIJKLMNOPQRSTUVWXYZ'' @
     [CHR 0xC0, CHR 0xC1, CHR 0xC2, CHR 0xC3, CHR 0xC4, CHR 0xC5, CHR 0xC6, CHR 0xC7,
      CHR 0xC8, CHR 0xC9, CHR 0xCA, CHR 0xCB, CHR 0xCC, CHR 0xCD, CHR 0xCE, CHR 0xCF,
      CHR 0xD0, CHR 0xD1, CHR 0xD2, CHR 0xD3, CHR 0xD4, CHR 0xD5, CHR 0xD6, CHR 0xD8,
      CHR 0xD9, CHR 0xDA, CHR 0xDB, CHR 0xDC, CHR 0xDD, CHR 0xDE]"

definition lowerCase :: string where
  "lowerCase = ''abcdefghijklmnopqrstuvwxyz'' @
     [CHR 0xE0, CHR 0xE1, CHR 0xE2, CHR 0xE3, CHR 0xE4, CHR 0xE5, CHR 0xE6, CHR 0xE7,
      CHR 0xE8, CHR 0xE9, CHR 0xEA, CHR 0xEB, CHR 0xEC, CHR 0xED, CHR 0xEE, CHR 0xEF,
      CHR 0xF0, CHR 0xF1, CHR 0xF2, CHR 0xF3, CHR 0xF4, CHR 0xF5, CHR 0xF6, CHR 0xF8,
      CHR 0xF9, CHR 0xFA, CHR 0xFB, CHR 0xFC, CHR 0xFD, CHR 0xFE]"

definition toLowerChar :: "char \<Rightarrow> char" where
  "toLowerChar c = (case map_of (zip upperCase lowerCase) c of Some l \<Rightarrow> l | None \<Rightarrow> c)"

definition toLowerCase :: "string \<Rightarrow> string" where
  "toLowerCase s = map toLowerChar s"

text \<open>\<open>s.replace(' ', '-')\<close> with a string pattern replaces the first occurrence only.\<close>

fun replaceFirst :: "char \<Rightarrow> char \<Rightarrow> string \<Rightarrow> string" where
  "replaceFirst a b [] = []"
| "replaceFirst a b (c # cs) = (if c = a then b # cs else c # replaceFirst a b cs)"

text \<open>\<open>sanitizeFileName\<close> (lib/utils.ts): \<open>fileName.replace(/[^a-z0-9]/gi, '_').toLowerCase()\<close>.\<close>

definition isAlphaNumeric :: "char \<Rightarrow> bool" where
  "isAlphaNumeric c =
     (c \<in> set ''abcdefghijklmnopqrstuvwxyz'' \<or> c \<in> set ''ABCDEFGHIJKLMNOPQRSTUVWXYZ'' \<or> isDigit c)"

definition sanitizeFileName :: "string \<Rightarrow> string" where
  "sanitizeFileName fileName =
     toLowerCase (map (\<lambda>c. if isAlphaNumeric c then c else CHR ''_'') fileName)"

text \<open>
  \<open>generateTranscriptId\<close>, for the dates the collector passes: each one is itself the
  result of \<open>toISOString\<close>, a UTC time stamp \<open>YYYY-MM-DDTHH:mm:ss.sssZ\<close>, which
  \<open>new Date(date).toISOString()\<close> gives back unchanged, and \<open>split('T')[0]\<close> is its part
  before the \<open>T\<close>. Other date texts (another time zone, an invalid date, on which the code
  throws) are not in the domain of the model.
\<close>

definition generateTranscriptId :: "string \<Rightarrow> string \<Rightarrow> string" where
  "generateTranscriptId quarterLabel isoDate =
     ''nvda_'' @ sanitizeFileName quarterLabel @ ''_'' @ takeWhile (\<lambda>c. c \<noteq> CHR ''T'') isoDate"

subsection \<open>generateRealisticSampleData\<close>

record Scenario =
  scenario_quarter :: string
  scenario_sentiment :: string
  scenario_themes :: "string list"
  scenario_revenue :: string

definition scenarios :: "Scenario list" where
  "scenarios =
     [\<lparr> scenario_quarter = ''Q4 2024'', scenario_sentiment = ''very positive'',
        scenario_themes = [''AI Revolution'', ''Data Center Growth'', ''Gaming Strength''],
        scenario_revenue = ''$60.9B'' \<rparr>,
      \<lparr> scenario_quarter = ''Q3 2024'', scenario_sentiment = ''positive'',
        scenario_themes = [''AI Demand'', ''Cloud Computing'', ''Automotive AI''],
        scenario_revenue = ''$35.1B'' \<rparr>,
      \<lparr> scenario_quarter = ''Q2 2024'', scenario_sentiment = ''mixed positive'',
        scenario_themes = [''Generative AI'', ''Enterprise Adoption'', ''Supply Chain''],
        scenario_revenue = ''$30.0B'' \<rparr>,
      \<lparr> scenario_quarter = ''Q1 2024'', scenario_sentiment = ''cautiously optimistic'',
        scenario_themes = [''AI Infrastructure'', ''Gaming Recovery'', ''Professional Visualization''],
        scenario_revenue = ''$26.0B'' \<rparr>]"

record Mood =
  tone :: string
  descriptor :: string
  outlook :: string

definition sentimentMap :: "string \<Rightarrow> Mood option" where
  "sentimentMap key =
     (if key = ''very positive''
      then Some \<lparr> tone = ''exceptional'', descriptor = ''record-breaking'',
                  outlook = ''unprecedented opportunities ahead'' \<rparr>
      else if key = ''positive''
      then Some \<lparr> tone = ''strong'', descriptor = ''solid'',
                  outlook = ''optimistic about future growth'' \<rparr>
      else if key = ''mixed positive''
      then Some \<lparr> tone = ''encouraging'', descriptor = ''steady'',
                  outlook = ''cautiously optimistic'' \<rparr>
      else if key = ''cautiously optimistic''
      then Some \<lparr> tone = ''measured'', descriptor = ''gradual'',
                  outlook = ''carefully monitoring market conditions'' \<rparr>
      else None)"

text \<open>
  \<open>sentimentMap[scenario.sentiment] || sentimentMap['positive']\<close>. A key that names a
  property of \<open>Object.prototype\<close> finds an object without \<open>tone\<close>, \<open>descriptor\<close> and
  \<open>outlook\<close>, which the template prints as \<open>undefined\<close>; so does \<open>themes[i]\<close> beyond the
  end of the theme list.
\<close>

definition moodOf :: "string \<Rightarrow> Mood" where
  "moodOf key =
     (case sentimentMap key of
        Some m \<Rightarrow> m
      | None \<Rightarrow>
          if key \<in> set Object_prototype_keys
          then \<lparr> tone = ''undefined'', descriptor = ''undefined'', outlook = ''undefined'' \<rparr>
          else \<lparr> tone = ''strong'', descriptor = ''solid'',
                 outlook = ''optimistic about future growth'' \<rparr>)"

definition themeAt :: "Scenario \<Rightarrow> nat \<Rightarrow> string" where
  "themeAt scenario i =
     (if i < length (scenario_themes scenario) then scenario_themes scenario ! i else ''undefined'')"

definition newline :: string where
  "newline = [CHR 0x0A]"

text \<open>The two templates, after \<open>.trim()\<close>: each starts and ends with fixed text, so the
  trim removes the line break after the opening back-tick and the white space before
  the closing one.\<close>

definition generateEnhancedManagementRemarks :: "Scenario \<Rightarrow> string" where
  "generateEnhancedManagementRemarks scenario =
     (let mood = moodOf (scenario_sentiment scenario)
      in concat
         [''Thank you for joining us today. I'm pleased to report '',
          tone mood,
          '' results for '',
          scenario_quarter scenario,
          ''.'',
          newline,
          newline,
          ''This quarter was marked by '',
          descriptor mood,
          '' performance across our key business segments. Revenue reached '',
          scenario_revenue scenario,
          '', reflecting the accelerating adoption of AI computing across '',
          ''industries.'',
          newline,
          newline,
          themeAt scenario 0,
          '' continues to be a major growth driver, with unprecedented demand '',
          ''from enterprises and cloud service providers. Our '',
          themeAt scenario 1,
          '' segment showed remarkable strength, while '',
          themeAt scenario 2,
          '' delivered solid results.'',
          newline,
          newline,
          ''We're seeing broad-based adoption of our platforms across multiple '',
          ''verticals. The fundamental shift toward accelerated computing is '',
          ''creating massive opportunities in generative AI, large language '',
          ''models, and intelligent systems.'',
          newline,
          newline,
          ''Looking ahead, we remain '',
          outlook mood,
          ''. Our technology leadership position and comprehensive ecosystem '',
          ''continue to drive customer adoption and market expansion.'',
          newline,
          newline,
          ''With that, I'll turn it over to Colette for the financial details.''])"

definition analystQuestions :: "string list" where
  "analystQuestions =
     [''Can you provide more color on AI demand trends?'',
      ''How do you see competition evolving in the data center space?'',
      ''What's your outlook for gaming and consumer markets?'',
      ''How are you managing supply chain in this environment?'']"

definition generateEnhancedQASection :: "Scenario \<Rightarrow> string" where
  "generateEnhancedQASection scenario =
     (concat
         [''Question-and-Answer Session'',
          newline,
          newline,
          ''Operator: Thank you. We will now begin the question-and-answer '',
          ''session.'',
          newline,
          newline,
          ''John Morgan - JPMorgan: '',
          analystQuestions ! 0,
          newline,
          newline,
          ''Jensen Huang: Thanks John. '',
          themeAt scenario 0,
          '' demand continues to exceed our expectations. We're seeing adoption '',
          ''across cloud hyperscalers, enterprises, and sovereign AI initiatives '',
          ''globally.'',
          newline,
          newline,
          ''Colette Kress: I'd add that our data center business has shown '',
          ''remarkable consistency. Customer pipeline remains robust across all '',
          ''segments.'',
          newline,
          newline,
          ''Stacy Rasgon - Bernstein Research: '',
          analystQuestions ! 1,
          newline,
          newline,
          ''Jensen Huang: The competitive landscape is dynamic, but our '',
          ''full-stack approach - from silicon to software - creates significant '',
          ''customer value. Our CUDA ecosystem advantage continues to expand.'',
          newline,
          newline,
          ''Timothy Arcuri - UBS: '',
          analystQuestions ! 2,
          newline,
          newline,
          ''Jensen Huang: Gaming fundamentals remain solid. We're seeing strong '',
          ''demand for RTX platforms and continued enthusiasm for ray tracing and '',
          ''DLSS technologies.'',
          newline,
          newline,
          ''Harsh Kumar - Piper Sandler: '',
          analystQuestions ! 3,
          newline,
          newline,
          ''Colette Kress: Supply chain execution has been strong. We continue to '',
          ''work closely with our partners to meet customer demand while managing '',
          ''lead times effectively.'',
          newline,
          newline,
          ''Operator: This concludes our question-and-answer session.''])"

text \<open>
  \<open>scenarios.slice(0, count)\<close>: a negative end counts from the end of the array. The
  requested count is an integer in the model.
\<close>

definition slice0 :: "'a list \<Rightarrow> int \<Rightarrow> 'a list" where
  "slice0 xs stop =
     (if stop < 0 then take (nat (int (length xs) + stop)) xs else take (nat stop) xs)"

text \<open>
  \<open>new Date().toISOString()\<close> reads the clock three times for every document: for the
  id, for \<open>createdAt\<close> and for \<open>updatedAt\<close>. \<open>clock k\<close> is the \<open>k\<close>-th reading of the call, and
  \<open>localDate y m d\<close> stands for \<open>new Date(y, m, d).toISOString()\<close>, which depends on the
  time zone of the process.
\<close>

record Dates =
  clock :: "nat \<Rightarrow> string"
  localDate :: "int \<Rightarrow> int \<Rightarrow> int \<Rightarrow> string"

definition sampleTranscript :: "Dates \<Rightarrow> Scenario \<Rightarrow> nat \<Rightarrow> EarningsTranscript" where
  "sampleTranscript dates scenario index =
     (let remarks = generateEnhancedManagementRemarks scenario;
          answers = generateEnhancedQASection scenario
      in \<lparr> transcript_id = generateTranscriptId (scenario_quarter scenario) (clock dates (3 * index)),
           transcript_quarter = scenario_quarter scenario,
           fiscalYear = 2024,
           date = localDate dates 2024 (11 - int index * 3) 15,
           url = ''https://investor.nvidia.com/financial-info/earnings-call-transcripts/'' @
                 replaceFirst CHR '' '' CHR ''-'' (toLowerCase (scenario_quarter scenario)),
           company = ''NVIDIA'',
           managementRemarks = remarks,
           qaSection = answers,
           fullTranscript = remarks @ newline @ newline @ answers,
           participants =
             [''Jensen Huang - CEO'', ''Colette Kress - CFO'',
              ''Simona Jankowski - Investor Relations'', ''Various Wall Street Analysts''],
           createdAt = clock dates (3 * index + 1),
           updatedAt = clock dates (3 * index + 2) \<rparr>)"

definition generateRealisticSampleData :: "Dates \<Rightarrow> int \<Rightarrow> EarningsTranscript list" where
  "generateRealisticSampleData dates count' =
     (let chosen = slice0 scenarios count'
      in map (\<lambda>index. sampleTranscript dates (chosen ! index) index) [0 ..< length chosen])"

subsection \<open>collectNvidiaTranscripts\<close>

text \<open>
  What the network gives is an input of the model: the candidates each search returns
  (a search that fails returns the empty list; \<open>searchMotleyFool\<close> returns the empty
  list in every case), and for every candidate and attempt number the transcript that
  \<open>scrapeTranscript\<close> builds from the fetched page, or \<open>None\<close> when the request fails or
  the extracted text has fewer than 500 characters.
\<close>

record UrlInfo =
  info_url :: string
  info_title :: string
  info_quarter :: string
  info_date :: string
  info_source :: string

record Web =
  searchSeekingAlpha :: "UrlInfo list"
  searchYahooFinance :: "UrlInfo list"
  attempt :: "UrlInfo \<Rightarrow> nat \<Rightarrow> EarningsTranscript option"

definition searchMotleyFool :: "UrlInfo list" where
  "searchMotleyFool = []"

text \<open>The loop over the three sources stops as soon as \<open>results.length >= quarters\<close>.\<close>

definition findNvidiaTranscriptUrls :: "Web \<Rightarrow> int \<Rightarrow> UrlInfo list" where
  "findNvidiaTranscriptUrls web quarters' =
     (let results1 = searchSeekingAlpha web
      in if int (length results1) \<ge> quarters' then slice0 results1 quarters'
         else let results2 = results1 @ searchYahooFinance web
              in if int (length results2) \<ge> quarters' then slice0 results2 quarters'
                 else slice0 (results2 @ searchMotleyFool) quarters')"

text \<open>\<open>scrapeTranscript\<close>: \<open>while (retries < this.maxRetries)\<close>, with the attempts that are
  left as the first argument.\<close>

definition maxRetries :: nat where
  "maxRetries = 3"

fun scrapeFrom :: "Web \<Rightarrow> UrlInfo \<Rightarrow> nat \<Rightarrow> nat \<Rightarrow> EarningsTranscript option" where
  "scrapeFrom web urlInfo 0 retries = None"
| "scrapeFrom web urlInfo (Suc left) retries =
     (case attempt web urlInfo retries of
        Some transcript \<Rightarrow> Some transcript
      | None \<Rightarrow> scrapeFrom web urlInfo left (Suc retries))"

definition scrapeTranscript :: "Web \<Rightarrow> UrlInfo \<Rightarrow> EarningsTranscript option" where
  "scrapeTranscript web urlInfo = scrapeFrom web urlInfo maxRetries 0"

definition tryAlternativeSources :: "Dates \<Rightarrow> int \<Rightarrow> EarningsTranscript list" where
  "tryAlternativeSources dates quarters' = generateRealisticSampleData dates quarters'"

text \<open>Nothing inside the outer \<open>try\<close> throws: the searches and \<open>scrapeTranscript\<close> catch
  their own errors.\<close>

definition collectNvidiaTranscripts :: "Web \<Rightarrow> Dates \<Rightarrow> int \<Rightarrow> EarningsTranscript list" where
  "collectNvidiaTranscripts web dates quarters' =
     (let transcriptUrls = findNvidiaTranscriptUrls web quarters'
      in if length transcriptUrls = 0 then tryAlternativeSources dates quarters'
         else let transcripts = List.map_filter (scrapeTranscript web) transcriptUrls
              in if length transcripts = 0 then generateRealisticSampleData dates quarters'
                 else transcripts)"

section \<open>Analysis engine (src/app/lib/analysis-engine.ts)\<close>

text \<open>
  What \<open>JSON.parse\<close> returns. The engine hands the parsed value on as it is: the
  interfaces \<open>SentimentAnalysis\<close> and \<open>StrategicFocus\<close> are checked by the compiler only, so
  at run time the three analysis fields of the record hold JSON values. An object is
  the list of its properties, each key once.
\<close>

datatype json =
  JNull
| JBool bool
| JNumber real
| JString string
| JArray "json list"
| JObject "(string \<times> json) list"

text \<open>
  The outcome of one request to the completion service, up to the parse of the answer:
  the request fails (time-out, connection error, error status, an answer without the
  expected fields), or its content (\<open>''\<close> when the answer has none) is not JSON text, or
  it is the JSON text of a value.
\<close>

datatype Completion = Rejected | NotJSON | Parsed json

record Service =
  managementCompletion :: Completion
  qaCompletion :: Completion
  themesCompletion :: Completion

text \<open>The body of the \<open>try\<close> block of each analysis: \<open>await create(...)\<close>, then
  \<open>JSON.parse(content)\<close>.\<close>

definition requestJSON :: "Completion \<Rightarrow> error + json" where
  "requestJSON completion =
     (case completion of
        Rejected \<Rightarrow> Inl TransportError
      | NotJSON \<Rightarrow> Inl SyntaxError
      | Parsed value \<Rightarrow> Inr value)"

definition getDefaultSentiment :: json where
  "getDefaultSentiment =
     JObject [(''sentiment'', JString ''neutral''),
              (''score'', JNumber 0),
              (''confidence'', JNumber 0.5),
              (''keyPhrases'', JArray [JString ''analysis unavailable'']),
              (''reasoning'', JString ''Unable to analyze sentiment due to API error'')]"

definition getDefaultStrategicFocus :: json where
  "getDefaultStrategicFocus =
     JArray [JObject [(''theme'', JString ''General Business Operations''),
                      (''mentions'', JNumber 1),
                      (''importance'', JNumber 0.5),
                      (''quotes'', JArray [JString ''Analysis unavailable'']),
                      (''category'', JString ''strategic'')]]"

text \<open>\<open>try { ... return JSON.parse(content) } catch (error) { return this.getDefaultSentiment() }\<close>\<close>

definition analyzeMgmtSentiment :: "Completion \<Rightarrow> error + json" where
  "analyzeMgmtSentiment completion =
     (case requestJSON completion of
        Inr value \<Rightarrow> Inr value
      | Inl e \<Rightarrow> Inr getDefaultSentiment)"

definition analyzeQASentiment :: "Completion \<Rightarrow> error + json" where
  "analyzeQASentiment completion =
     (case requestJSON completion of
        Inr value \<Rightarrow> Inr value
      | Inl e \<Rightarrow> Inr getDefaultSentiment)"

text \<open>
  \<open>parsed.themes\<close>: reading a property of \<open>null\<close> throws a \<open>TypeError\<close>; an object has the
  property when it has the key; numbers, strings, booleans and arrays have no property
  \<open>themes\<close>. \<open>parsed.themes || []\<close> replaces \<open>undefined\<close> and every falsy value by the empty
  array.
\<close>

definition themesProperty :: "json \<Rightarrow> error + json option" where
  "themesProperty parsed =
     (case parsed of
        JNull \<Rightarrow> Inl TypeError
      | JObject properties \<Rightarrow> Inr (map_of properties ''themes'')
      | _ \<Rightarrow> Inr None)"

definition truthy :: "json \<Rightarrow> bool" where
  "truthy value =
     (case value of
        JNull \<Rightarrow> False
      | JBool b \<Rightarrow> b
      | JNumber x \<Rightarrow> x \<noteq> 0
      | JString s \<Rightarrow> s \<noteq> []
      | _ \<Rightarrow> True)"

definition extractStrategicFocus :: "Completion \<Rightarrow> error + json" where
  "extractStrategicFocus completion =
     (case (case requestJSON completion of
              Inl e \<Rightarrow> Inl e
            | Inr parsed \<Rightarrow>
                (case themesProperty parsed of
                   Inl e \<Rightarrow> Inl e
                 | Inr None \<Rightarrow> Inr (JArray [])
                 | Inr (Some themes) \<Rightarrow> Inr (if truthy themes then themes else JArray []))) of
        Inr value \<Rightarrow> Inr value
      | Inl e \<Rightarrow> Inr getDefaultStrategicFocus)"

subsection \<open>extractKeyMetrics\<close>

text \<open>
  \<open>transcript.match(/revenue.*?(\$[\d.]+ billion)/i)\<close>: the leftmost occurrence of the
  keyword, in any case, after which an amount follows on the same line; the lazy \<open>.*?\<close>
  stops at the first amount. An amount is \<open>$\<close>, the maximal run of digits and dots,
  which is not empty, and \<open> billion\<close> in any case; the capture is the amount as the
  transcript has it.
\<close>

fun stripPrefixCI :: "string \<Rightarrow> string \<Rightarrow> string option" where
  "stripPrefixCI [] s = Some s"
| "stripPrefixCI (p # ps) [] = None"
| "stripPrefixCI (p # ps) (c # cs) =
     (if toLowerChar c = toLowerChar p then stripPrefixCI ps cs else None)"

definition isAmountChar :: "char \<Rightarrow> bool" where
  "isAmountChar c = (isDigit c \<or> c = CHR ''.'')"

definition amountAt :: "string \<Rightarrow> string option" where
  "amountAt s =
     (case s of
        [] \<Rightarrow> None
      | c # rest \<Rightarrow>
          if c \<noteq> CHR ''$'' then None
          else let run = takeWhile isAmountChar rest;
                   rest1 = dropWhile isAmountChar rest
               in if run = [] then None
                  else (case stripPrefixCI '' billion'' rest1 of
                          None \<Rightarrow> None
                        | Some rest2 \<Rightarrow> Some (''$'' @ run @ take 8 rest1)))"

definition isLineTerminator :: "char \<Rightarrow> bool" where
  "isLineTerminator c = (c = CHR 0x0A \<or> c = CHR 0x0D)"

fun findAmount :: "string \<Rightarrow> string option" where
  "findAmount [] = None"
| "findAmount (c # cs) =
     (case amountAt (c # cs) of
        Some amount \<Rightarrow> Some amount
      | None \<Rightarrow> if isLineTerminator c then None else findAmount cs)"

fun keywordAmount :: "string \<Rightarrow> string \<Rightarrow> string option" where
  "keywordAmount keyword [] = None"
| "keywordAmount keyword (c # cs) =
     (case (case stripPrefixCI keyword (c # cs) of
              None \<Rightarrow> None
            | Some rest \<Rightarrow> findAmount rest) of
        Some amount \<Rightarrow> Some amount
      | None \<Rightarrow> keywordAmount keyword cs)"

definition extractKeyMetrics :: "string \<Rightarrow> KeyMetrics" where
  "extractKeyMetrics transcript =
     \<lparr> revenue = keywordAmount ''revenue'' transcript,
       guidance = keywordAmount ''guidance'' transcript,
       marketCap = None \<rparr>"

subsection \<open>analyzeTranscript\<close>

text \<open>The record \<open>analyzeTranscript\<close> returns, with the analysis fields as parsed.\<close>

record ParsedInsights =
  parsed_transcriptId :: string
  parsed_quarter :: string
  parsed_managementSentiment :: json
  parsed_qaSentiment :: json
  parsed_strategicFocuses :: json
  parsed_keyMetrics :: KeyMetrics
  parsed_generatedAt :: string

text \<open>
  \<open>Promise.all\<close> of the three analyses rejects with the error of an analysis that
  rejects, and the \<open>catch\<close> of \<open>analyzeTranscript\<close> throws that error again. \<open>now\<close> is the
  clock reading of \<open>generatedAt\<close>.
\<close>

definition analyzeTranscript :: "Service \<Rightarrow> string \<Rightarrow> EarningsTranscript \<Rightarrow> error + ParsedInsights" where
  "analyzeTranscript service now transcript =
     (case analyzeMgmtSentiment (managementCompletion service) of
        Inl e \<Rightarrow> Inl e
      | Inr managementSentiment' \<Rightarrow>
          (case analyzeQASentiment (qaCompletion service) of
             Inl e \<Rightarrow> Inl e
           | Inr qaSentiment' \<Rightarrow>
               (case extractStrategicFocus (themesCompletion service) of
                  Inl e \<Rightarrow> Inl e
                | Inr strategicFocuses' \<Rightarrow>
                    Inr \<lparr> parsed_transcriptId = transcript_id transcript,
                          parsed_quarter = transcript_quarter transcript,
                          parsed_managementSentiment = managementSentiment',
                          parsed_qaSentiment = qaSentiment',
                          parsed_strategicFocuses = strategicFocuses',
                          parsed_keyMetrics = extractKeyMetrics (fullTranscript transcript),
                          parsed_generatedAt = now \<rparr>)))"

text \<open>
  The shape the interface \<open>SentimentAnalysis\<close> of \<open>types/index.ts\<close> and the prompt ask
  for: an object with a label among the three, a score between -1 and 1, a confidence
  between 0 and 1, a list of key phrases and a reasoning.
\<close>

definition isString :: "json \<Rightarrow> bool" where
  "isString value = (case value of JString s \<Rightarrow> True | _ \<Rightarrow> False)"

definition conformsToSentimentAnalysis :: "json \<Rightarrow> bool" where
  "conformsToSentimentAnalysis value =
     (case value of
        JObject properties \<Rightarrow>
          (case map_of properties ''sentiment'' of
             Some (JString label) \<Rightarrow> label \<in> set [''positive'', ''neutral'', ''negative'']
           | _ \<Rightarrow> False) \<and>
          (case map_of properties ''score'' of
             Some (JNumber x) \<Rightarrow> - 1 \<le> x \<and> x \<le> 1
           | _ \<Rightarrow> False) \<and>
          (case map_of properties ''confidence'' of
             Some (JNumber x) \<Rightarrow> 0 \<le> x \<and> x \<le> 1
           | _ \<Rightarrow> False) \<and>
          (case map_of properties ''keyPhrases'' of
             Some (JArray phrases) \<Rightarrow> list_all isString phrases
           | _ \<Rightarrow> False) \<and>
          (case map_of properties ''reasoning'' of
             Some (JString text) \<Rightarrow> True
           | _ \<Rightarrow> False)
      | _ \<Rightarrow> False)"

section \<open>Predicates and examples used in the statements\<close>

text \<open>A label is well formed when the pattern of \<open>parseQuarter\<close> matches it.\<close>

definition wellFormed :: "string \<Rightarrow> bool" where
  "wellFormed label = (quarterMatch label \<noteq> None)"

text \<open>\<open>a\<close> is not after \<open>b\<close> when the comparator returns a number that is at most 0.\<close>

definition notAfter :: "QuarterlyInsights \<Rightarrow> QuarterlyInsights \<Rightarrow> bool" where
  "notAfter a b = (case compareQuarters a b of Inl e \<Rightarrow> False | Inr c \<Rightarrow> c \<le> 0)"

text \<open>
  The chronological order, stated on the numbers of the labels: the year decides, and
  the quarter decides between equal years. \<open>Infinity\<close> is above every finite number. A
  list is chronological when every record comes with the records after it in this
  order.
\<close>

definition numberLess :: "JSNumber \<Rightarrow> JSNumber \<Rightarrow> bool" where
  "numberLess x y =
     (case (x, y) of
        (Finite m, Finite n) \<Rightarrow> m < n
      | (Finite m, Infinity) \<Rightarrow> True
      | (Infinity, y') \<Rightarrow> False)"

definition quarterLessEq :: "ParsedQuarter \<Rightarrow> ParsedQuarter \<Rightarrow> bool" where
  "quarterLessEq a b =
     (numberLess (year a) (year b) \<or>
      (year a = year b \<and> (numberLess (q a) (q b) \<or> q a = q b)))"

definition labelLessEq :: "string \<Rightarrow> string \<Rightarrow> bool" where
  "labelLessEq l1 l2 =
     (case (parseQuarter l1, parseQuarter l2) of
        (Inr a, Inr b) \<Rightarrow> quarterLessEq a b
      | _ \<Rightarrow> False)"

definition chronological :: "QuarterlyInsights list \<Rightarrow> bool" where
  "chronological insights = sorted_wrt (\<lambda>a b. labelLessEq (quarter a) (quarter b)) insights"

text \<open>A record with the given label, management label and score, and theme names; its
  Q&A sentiment is neutral with score 0.\<close>

definition exampleInsights :: "string \<Rightarrow> string \<Rightarrow> real \<Rightarrow> string list \<Rightarrow> QuarterlyInsights" where
  "exampleInsights label mood s themes =
     \<lparr> transcriptId = ''nvda_'' @ label,
       quarter = label,
       managementSentiment =
         Some \<lparr> sentiment = mood, score = s, confidence = 0.9, keyPhrases = [], reasoning = [] \<rparr>,
       qaSentiment =
         Some \<lparr> sentiment = ''neutral'', score = 0, confidence = 0.9, keyPhrases = [], reasoning = [] \<rparr>,
       strategicFocuses =
         Some (map (\<lambda>t. \<lparr> theme = t, mentions = 1, importance = 0.5, quotes = [],
                            category = ''strategic'' \<rparr>) themes),
       keyMetrics = \<lparr> revenue = None, guidance = None, marketCap = None \<rparr>,
       generatedAt = [] \<rparr>"

text \<open>A network on which every search returns nothing and every attempt fails, a clock,
  and a candidate.\<close>

definition deadWeb :: Web where
  "deadWeb = \<lparr> searchSeekingAlpha = [], searchYahooFinance = [], attempt = (\<lambda>u k. None) \<rparr>"

definition exampleDates :: Dates where
  "exampleDates = \<lparr> clock = (\<lambda>k. ''2026-11-03T10:00:00.000Z''),
                    localDate = (\<lambda>y m d. ''2024-12-15T00:00:00.000Z'') \<rparr>"

definition exampleUrlInfo :: UrlInfo where
  "exampleUrlInfo =
     \<lparr> info_url = ''https://seekingalpha.com/article/nvidia-q4-2024-earnings-call-transcript'',
       info_title = ''NVIDIA Q4 2024 Earnings Call Transcript'',
       info_quarter = ''Q4 2024'',
       info_date = ''2026-11-03T10:00:00.000Z'',
       info_source = ''Seeking Alpha'' \<rparr>"

text \<open>What \<open>extractStrategicFocus\<close> makes of a parsed value other than \<open>null\<close>: its \<open>themes\<close>
  property, or the empty array when the property is missing or falsy.\<close>

definition themesOrEmpty :: "json \<Rightarrow> json" where
  "themesOrEmpty parsed =
     (case parsed of
        JObject properties \<Rightarrow>
          (case map_of properties ''themes'' of
             Some themes \<Rightarrow> if truthy themes then themes else JArray []
           | None \<Rightarrow> JArray [])
      | _ \<Rightarrow> JArray [])"

section \<open>Properties of the trend analyzer\<close>

subsection \<open>Parsing and comparing quarter labels\<close>

lemma parseQuarter_Inl_iff:
  "parseQuarter l = Inl e \<longleftrightarrow> \<not> wellFormed l \<and> e = InvalidQuarterFormat l"
  by (auto simp: parseQuarter_def wellFormed_def split: option.splits)

lemma parseQuarter_Inr_wellFormed: "parseQuarter l = Inr p \<Longrightarrow> wellFormed l"
  by (auto simp: parseQuarter_def wellFormed_def split: option.splits)

lemma parseQuarter_wellFormed: "wellFormed l \<Longrightarrow> \<exists>p. parseQuarter l = Inr p"
  by (auto simp: parseQuarter_def wellFormed_def split: option.splits)

lemma compareQuarters_Inl:
  "compareQuarters a b = Inl e \<Longrightarrow>
     (\<not> wellFormed (quarter a) \<and> e = InvalidQuarterFormat (quarter a)) \<or>
     (\<not> wellFormed (quarter b) \<and> e = InvalidQuarterFormat (quarter b))"
  by (auto simp: compareQuarters_def parseQuarter_Inl_iff split: sum.splits if_splits)

lemma compareQuarters_Inr:
  "compareQuarters a b = Inr c \<Longrightarrow> wellFormed (quarter a) \<and> wellFormed (quarter b)"
  by (auto simp: compareQuarters_def split: sum.splits if_splits dest: parseQuarter_Inr_wellFormed)

lemma compareQuarters_total:
  "wellFormed (quarter a) \<Longrightarrow> wellFormed (quarter b) \<Longrightarrow> \<exists>c. compareQuarters a b = Inr c"
  using parseQuarter_wellFormed[of "quarter a"] parseQuarter_wellFormed[of "quarter b"]
  by (auto simp: compareQuarters_def)

text \<open>The sign of \<open>difference\<close> is the order of the numbers.\<close>

lemma difference_negative: "difference x y < 0 \<longleftrightarrow> numberLess x y"
  by (auto simp: difference_def numberLess_def split: JSNumber.splits)

lemma difference_zero: "difference x y = 0 \<longleftrightarrow> x = y"
  by (auto simp: difference_def split: JSNumber.splits)

lemma difference_positive: "0 < difference x y \<longleftrightarrow> numberLess y x"
  by (auto simp: difference_def numberLess_def split: JSNumber.splits)

lemma numberLess_trans: "numberLess x y \<Longrightarrow> numberLess y z \<Longrightarrow> numberLess x z"
  by (auto simp: numberLess_def split: JSNumber.splits)

lemma numberLess_irrefl: "\<not> numberLess x x"
  by (auto simp: numberLess_def split: JSNumber.splits)

lemma numberLess_asym: "numberLess x y \<Longrightarrow> \<not> numberLess y x"
  by (auto simp: numberLess_def split: JSNumber.splits)

lemma numberLess_linear: "numberLess x y \<or> x = y \<or> numberLess y x"
  by (auto simp: numberLess_def split: JSNumber.splits)

text \<open>The comparator returns a number that is at most 0 exactly when the first label is
  not after the second in the chronological order.\<close>

lemma compareQuarters_sign:
  assumes "parseQuarter (quarter a) = Inr pa" and "parseQuarter (quarter b) = Inr pb"
  shows "\<exists>c. compareQuarters a b = Inr c \<and>
             (c \<le> 0 \<longleftrightarrow> quarterLessEq pa pb) \<and> (0 \<le> c \<longleftrightarrow> quarterLessEq pb pa)"
proof (cases "year pa = year pb")
  case True
  then have c: "compareQuarters a b = Inr (difference (q pa) (q pb))"
    using assms by (simp add: compareQuarters_def)
  have neg: "difference (q pa) (q pb) \<le> 0 \<longleftrightarrow> numberLess (q pa) (q pb) \<or> q pa = q pb"
    using difference_negative[of "q pa" "q pb"] difference_zero[of "q pa" "q pb"] by linarith
  have pos: "0 \<le> difference (q pa) (q pb) \<longleftrightarrow> numberLess (q pb) (q pa) \<or> q pa = q pb"
    using difference_positive[of "q pa" "q pb"] difference_zero[of "q pa" "q pb"] by linarith
  have "quarterLessEq pa pb \<longleftrightarrow> numberLess (q pa) (q pb) \<or> q pa = q pb"
    by (simp add: quarterLessEq_def True numberLess_irrefl)
  moreover have "quarterLessEq pb pa \<longleftrightarrow> numberLess (q pb) (q pa) \<or> q pa = q pb"
    by (auto simp: quarterLessEq_def True numberLess_irrefl)
  ultimately show ?thesis
    using c neg pos by blast
next
  case False
  then have c: "compareQuarters a b = Inr (difference (year pa) (year pb))"
    using assms by (simp add: compareQuarters_def)
  have neg: "difference (year pa) (year pb) \<le> 0 \<longleftrightarrow> numberLess (year pa) (year pb)"
    using difference_negative[of "year pa" "year pb"] difference_zero[of "year pa" "year pb"] False
    by linarith
  have pos: "0 \<le> difference (year pa) (year pb) \<longleftrightarrow> numberLess (year pb) (year pa)"
    using difference_positive[of "year pa" "year pb"] difference_zero[of "year pa" "year pb"] False
    by linarith
  have "quarterLessEq pa pb \<longleftrightarrow> numberLess (year pa) (year pb)"
    using False by (auto simp: quarterLessEq_def)
  moreover have "quarterLessEq pb pa \<longleftrightarrow> numberLess (year pb) (year pa)"
    using False by (auto simp: quarterLessEq_def)
  ultimately show ?thesis
    using c neg pos by blast
qed

lemma notAfter_iff: "notAfter a b \<longleftrightarrow> labelLessEq (quarter a) (quarter b)"
proof (cases "parseQuarter (quarter a)")
  case (Inl e)
  then show ?thesis by (simp add: notAfter_def labelLessEq_def compareQuarters_def)
next
  case a: (Inr pa)
  show ?thesis
  proof (cases "parseQuarter (quarter b)")
    case (Inl e)
    with a show ?thesis by (simp add: notAfter_def labelLessEq_def compareQuarters_def)
  next
    case (Inr pb)
    from compareQuarters_sign[OF a Inr] a Inr show ?thesis
      by (auto simp: notAfter_def labelLessEq_def)
  qed
qed

lemma quarterLessEq_trans:
  "quarterLessEq a b \<Longrightarrow> quarterLessEq b c \<Longrightarrow> quarterLessEq a c"
  unfolding quarterLessEq_def
  by (auto intro: numberLess_trans)

lemma quarterLessEq_linear: "quarterLessEq a b \<or> quarterLessEq b a"
  unfolding quarterLessEq_def
  using numberLess_linear[of "year a" "year b"] numberLess_linear[of "q a" "q b"] by auto

lemma notAfter_trans: "notAfter a b \<Longrightarrow> notAfter b c \<Longrightarrow> notAfter a c"
  unfolding notAfter_iff labelLessEq_def
  by (auto split: sum.splits dest: quarterLessEq_trans)

lemma compareQuarters_nonnegative:
  "compareQuarters x y = Inr c \<Longrightarrow> 0 \<le> c \<Longrightarrow> notAfter y x"
proof -
  assume c: "compareQuarters x y = Inr c" and pos: "0 \<le> c"
  from compareQuarters_Inr[OF c] obtain px py where
    p: "parseQuarter (quarter x) = Inr px" "parseQuarter (quarter y) = Inr py"
    using parseQuarter_wellFormed by blast
  from compareQuarters_sign[OF p] c pos have "quarterLessEq py px" by auto
  with p show ?thesis by (simp add: notAfter_iff labelLessEq_def)
qed

lemma compareQuarters_negative:
  "compareQuarters x y = Inr c \<Longrightarrow> c < 0 \<Longrightarrow> notAfter x y"
  by (simp add: notAfter_def)

lemma notAfter_compare:
  "notAfter y x \<Longrightarrow> \<exists>c. compareQuarters x y = Inr c \<and> 0 \<le> c"
proof -
  assume "notAfter y x"
  then obtain py px where
    p: "parseQuarter (quarter x) = Inr px" "parseQuarter (quarter y) = Inr py"
    and le: "quarterLessEq py px"
    by (auto simp: notAfter_iff labelLessEq_def split: sum.splits)
  from compareQuarters_sign[OF p] le show ?thesis by auto
qed

subsection \<open>The sort\<close>

lemma Array_sort_Nil [simp]: "Array_sort cmp [] = Inr []"
  by (simp add: Array_sort_def)

lemma Array_sort_single [simp]: "Array_sort cmp [x] = Inr [x]"
  by (simp add: Array_sort_def)

lemma insertLast_mset:
  "insertLast cmp x ys = Inr r \<Longrightarrow> mset r = add_mset x (mset ys)"
  by (induction ys arbitrary: r) (auto split: sum.splits if_splits)

lemma insertLast_set:
  "insertLast cmp x ys = Inr r \<Longrightarrow> set r = insert x (set ys)"
  by (metis insertLast_mset set_mset_add_mset_insert set_mset_mset)

lemma insertLast_not_Nil: "insertLast cmp x ys = Inr r \<Longrightarrow> r \<noteq> []"
  by (cases ys) (auto split: sum.splits if_splits)

lemma sortLoop_mset:
  "sortLoop cmp done xs = Inr s \<Longrightarrow> mset s = mset done + mset xs"
proof (induction xs arbitrary: "done")
  case Nil
  then show ?case by auto
next
  case (Cons x xs)
  from Cons.prems obtain d where d: "insertLast cmp x done = Inr d"
    and s: "sortLoop cmp d xs = Inr s"
    by (auto split: sum.splits)
  from Cons.IH[OF s] insertLast_mset[OF d] show ?case by simp
qed

lemma Array_sort_mset:
  "Array_sort cmp xs = Inr s \<Longrightarrow> mset s = mset xs"
  using sortLoop_mset[of cmp "[]" xs s] by (simp add: Array_sort_def)

lemma Array_sort_length:
  "Array_sort cmp xs = Inr s \<Longrightarrow> length s = length xs"
  by (metis Array_sort_mset size_mset)

lemma Array_sort_set:
  "Array_sort cmp xs = Inr s \<Longrightarrow> set s = set xs"
  by (metis Array_sort_mset set_mset_mset)

text \<open>An error of the sort is the error of a malformed label of the array.\<close>

lemma insertLast_Inl:
  "insertLast compareQuarters x ys = Inl e \<Longrightarrow>
     \<exists>z \<in> set (x # ys). \<not> wellFormed (quarter z) \<and> e = InvalidQuarterFormat (quarter z)"
proof (induction ys)
  case Nil
  then show ?case by simp
next
  case (Cons y ys)
  show ?case
  proof (cases "compareQuarters x y")
    case (Inl e')
    with Cons.prems have "e' = e" by simp
    with Inl compareQuarters_Inl[of x y e] show ?thesis by auto
  next
    case (Inr c)
    with Cons.prems have "insertLast compareQuarters x ys = Inl e"
      by (auto split: if_splits sum.splits)
    from Cons.IH[OF this] show ?thesis by auto
  qed
qed

lemma sortLoop_Inl:
  "sortLoop compareQuarters done xs = Inl e \<Longrightarrow>
     \<exists>z \<in> set done \<union> set xs. \<not> wellFormed (quarter z) \<and> e = InvalidQuarterFormat (quarter z)"
proof (induction xs arbitrary: "done")
  case Nil
  then show ?case by simp
next
  case (Cons x xs)
  show ?case
  proof (cases "insertLast compareQuarters x done")
    case (Inl e')
    with Cons.prems have "e' = e" by simp
    with Inl insertLast_Inl[of x "done" e] show ?thesis by auto
  next
    case (Inr d)
    with Cons.prems have "sortLoop compareQuarters d xs = Inl e" by simp
    from Cons.IH[OF this] insertLast_set[OF Inr] show ?thesis by auto
  qed
qed

lemma Array_sort_Inl:
  "Array_sort compareQuarters xs = Inl e \<Longrightarrow>
     \<exists>z \<in> set xs. \<not> wellFormed (quarter z) \<and> e = InvalidQuarterFormat (quarter z)"
  using sortLoop_Inl[of "[]" xs e] by (simp add: Array_sort_def)

text \<open>A sort of two or more records that ends normally has parsed every label.\<close>

lemma insertLast_Inr_wellFormed:
  "insertLast compareQuarters x (y # ys) = Inr r \<Longrightarrow>
     wellFormed (quarter x) \<and> wellFormed (quarter y)"
  by (auto split: sum.splits dest: compareQuarters_Inr)

lemma sortLoop_Inr_wellFormed:
  "sortLoop compareQuarters done xs = Inr s \<Longrightarrow> done \<noteq> [] \<Longrightarrow>
     \<forall>z \<in> set xs. wellFormed (quarter z)"
proof (induction xs arbitrary: "done")
  case Nil
  then show ?case by simp
next
  case (Cons x xs)
  from Cons.prems(1) obtain d where d: "insertLast compareQuarters x done = Inr d"
    and s: "sortLoop compareQuarters d xs = Inr s"
    by (auto split: sum.splits)
  from Cons.prems(2) obtain y ys where "done = y # ys" by (cases "done") auto
  with d have "wellFormed (quarter x)" using insertLast_Inr_wellFormed by blast
  moreover from Cons.IH[OF s insertLast_not_Nil[OF d]]
  have "\<forall>z \<in> set xs. wellFormed (quarter z)" .
  ultimately show ?case by simp
qed

lemma Array_sort_Inr_wellFormed:
  assumes "Array_sort compareQuarters xs = Inr s" and "2 \<le> length xs"
  shows "\<forall>z \<in> set xs. wellFormed (quarter z)"
proof -
  from assms(2) obtain x0 x1 rest where xs: "xs = x0 # x1 # rest"
    by (cases xs; cases "tl xs") auto
  from assms(1) have loop: "sortLoop compareQuarters [x0] (x1 # rest) = Inr s"
    by (simp add: Array_sort_def xs)
  then have later: "\<forall>z \<in> set (x1 # rest). wellFormed (quarter z)"
    by (rule sortLoop_Inr_wellFormed) simp
  from loop obtain d where "insertLast compareQuarters x1 [x0] = Inr d"
    by (auto split: sum.splits)
  then have "wellFormed (quarter x0)" using insertLast_Inr_wellFormed by blast
  with later show ?thesis by (simp add: xs)
qed

text \<open>With well-formed labels the sort ends normally.\<close>

lemma insertLast_total:
  "wellFormed (quarter x) \<Longrightarrow> \<forall>z \<in> set ys. wellFormed (quarter z) \<Longrightarrow>
     \<exists>r. insertLast compareQuarters x ys = Inr r"
proof (induction ys)
  case Nil
  then show ?case by simp
next
  case (Cons y ys)
  then obtain c where "compareQuarters x y = Inr c"
    using compareQuarters_total[of x y] by auto
  moreover from Cons obtain r where "insertLast compareQuarters x ys = Inr r" by auto
  ultimately show ?case by auto
qed

lemma sortLoop_total:
  "\<forall>z \<in> set done \<union> set xs. wellFormed (quarter z) \<Longrightarrow>
     \<exists>s. sortLoop compareQuarters done xs = Inr s"
proof (induction xs arbitrary: "done")
  case Nil
  then show ?case by simp
next
  case (Cons x xs)
  then obtain d where d: "insertLast compareQuarters x done = Inr d"
    using insertLast_total[of x "done"] by auto
  with Cons.prems insertLast_set[OF d] have "\<forall>z \<in> set d \<union> set xs. wellFormed (quarter z)"
    by auto
  from Cons.IH[OF this] d show ?case by simp
qed

lemma Array_sort_total:
  "\<forall>z \<in> set xs. wellFormed (quarter z) \<Longrightarrow> \<exists>s. Array_sort compareQuarters xs = Inr s"
  using sortLoop_total[of "[]" xs] by (simp add: Array_sort_def)

text \<open>A chronological array is left as it is.\<close>

lemma chronological_notAfter: "chronological xs \<longleftrightarrow> sorted_wrt notAfter xs"
proof -
  have "notAfter = (\<lambda>a b. labelLessEq (quarter a) (quarter b))"
    by (intro ext) (rule notAfter_iff)
  then show ?thesis by (simp add: chronological_def)
qed

lemma sortLoop_sorted_input:
  "sorted_wrt notAfter (p @ xs) \<Longrightarrow> sortLoop compareQuarters (rev p) xs = Inr (p @ xs)"
proof (induction xs arbitrary: p)
  case Nil
  then show ?case by simp
next
  case (Cons x xs)
  have ins: "insertLast compareQuarters x (rev p) = Inr (rev (p @ [x]))"
  proof (cases p rule: rev_cases)
    case Nil
    then show ?thesis by simp
  next
    case (snoc p' y)
    with Cons.prems have "notAfter y x" by (simp add: sorted_wrt_append)
    from notAfter_compare[OF this] snoc show ?thesis by auto
  qed
  from Cons.prems have "sorted_wrt notAfter ((p @ [x]) @ xs)" by simp
  from Cons.IH[OF this] ins show ?case by simp
qed

lemma Array_sort_chronological:
  "chronological xs \<Longrightarrow> Array_sort compareQuarters xs = Inr xs"
  using sortLoop_sorted_input[of "[]" xs] by (simp add: Array_sort_def chronological_notAfter)

text \<open>The sorted array is chronological.\<close>

lemma insertLast_sorted:
  "sorted_wrt (\<lambda>a b. notAfter b a) ys \<Longrightarrow> insertLast compareQuarters x ys = Inr r \<Longrightarrow>
     sorted_wrt (\<lambda>a b. notAfter b a) r"
proof (induction ys arbitrary: r)
  case Nil
  then show ?case by auto
next
  case (Cons y ys)
  from Cons.prems(2) obtain c where c: "compareQuarters x y = Inr c"
    by (auto split: sum.splits)
  show ?case
  proof (cases "c < 0")
    case True
    with c Cons.prems(2) obtain r' where r': "insertLast compareQuarters x ys = Inr r'"
      and r: "r = y # r'"
      by (auto split: sum.splits)
    from Cons.prems(1) have "sorted_wrt (\<lambda>a b. notAfter b a) ys" by simp
    from Cons.IH[OF this r'] have sr': "sorted_wrt (\<lambda>a b. notAfter b a) r'" .
    from c True have "notAfter x y" by (rule compareQuarters_negative)
    with Cons.prems(1) insertLast_set[OF r'] have "\<forall>z \<in> set r'. notAfter z y" by auto
    with sr' r show ?thesis by simp
  next
    case False
    with c Cons.prems(2) have r: "r = x # y # ys" by simp
    from c False have yx: "notAfter y x" by (auto intro: compareQuarters_nonnegative)
    with Cons.prems(1) have "\<forall>z \<in> set (y # ys). notAfter z x"
      by (auto intro: notAfter_trans)
    with Cons.prems(1) r show ?thesis by simp
  qed
qed

lemma sortLoop_sorted:
  "sorted_wrt (\<lambda>a b. notAfter b a) done \<Longrightarrow> sortLoop compareQuarters done xs = Inr s \<Longrightarrow>
     sorted_wrt notAfter s"
proof (induction xs arbitrary: "done")
  case Nil
  then show ?case by (auto simp: sorted_wrt_rev)
next
  case (Cons x xs)
  from Cons.prems(2) obtain d where d: "insertLast compareQuarters x done = Inr d"
    and s: "sortLoop compareQuarters d xs = Inr s"
    by (auto split: sum.splits)
  from insertLast_sorted[OF Cons.prems(1) d] Cons.IH s show ?case by blast
qed

lemma Array_sort_sorted:
  "Array_sort compareQuarters xs = Inr s \<Longrightarrow> chronological s"
  using sortLoop_sorted[of "[]" xs s] by (simp add: Array_sort_def chronological_notAfter)

subsection \<open>The example records\<close>

lemma quarter_example [simp]: "quarter (exampleInsights l m s t) = l"
  by (simp add: exampleInsights_def)

lemma themesOf_example [simp]: "themesOf (exampleInsights l m s t) = t"
  by (simp add: exampleInsights_def themesOf_def comp_def)

lemma managementSentiment_example [simp]:
  "sentimentOf (managementSentiment (exampleInsights l m s t)) = (if m = [] then ''neutral'' else m)"
  "scoreOf (managementSentiment (exampleInsights l m s t)) = s"
  "sentimentOf (qaSentiment (exampleInsights l m s t)) = ''neutral''"
  "scoreOf (qaSentiment (exampleInsights l m s t)) = 0"
  by (simp_all add: exampleInsights_def sentimentOf_def scoreOf_def)

lemma roundToDouble_small: "n < 2 ^ 53 \<Longrightarrow> roundToDouble n = Finite n"
  by (simp add: roundToDouble_def)

lemma parseQuarter_Q1_2024:
  "parseQuarter ''Q1 2024'' = Inr \<lparr> q = Finite 1, year = Finite 2024 \<rparr>"
  by (simp add: parseQuarter_def matchHere_def isDigit_def isSpace_def parseInt_def
      decimalValue_def digitValue_def roundToDouble_small Let_def)

lemma parseQuarter_Q2_2024:
  "parseQuarter ''Q2 2024'' = Inr \<lparr> q = Finite 2, year = Finite 2024 \<rparr>"
  by (simp add: parseQuarter_def matchHere_def isDigit_def isSpace_def parseInt_def
      decimalValue_def digitValue_def roundToDouble_small Let_def)

lemma parseQuarter_Q4_2024:
  "parseQuarter ''Q4 2024'' = Inr \<lparr> q = Finite 4, year = Finite 2024 \<rparr>"
  by (simp add: parseQuarter_def matchHere_def isDigit_def isSpace_def parseInt_def
      decimalValue_def digitValue_def roundToDouble_small Let_def)

lemma parseQuarter_Q1_2025:
  "parseQuarter ''Q1 2025'' = Inr \<lparr> q = Finite 1, year = Finite 2025 \<rparr>"
  by (simp add: parseQuarter_def matchHere_def isDigit_def isSpace_def parseInt_def
      decimalValue_def digitValue_def roundToDouble_small Let_def)

lemma parseQuarter_Quarter_One:
  "parseQuarter ''Quarter One 2024'' = Inl (InvalidQuarterFormat ''Quarter One 2024'')"
  by (simp add: parseQuarter_def matchHere_def isDigit_def isSpace_def)

lemma not_wellFormed_Quarter_One: "\<not> wellFormed ''Quarter One 2024''"
  using parseQuarter_Quarter_One by (simp add: parseQuarter_Inl_iff)

lemma sort_example_swapped:
  "Array_sort compareQuarters
     [exampleInsights ''Q2 2024'' m2 s2 t2, exampleInsights ''Q1 2024'' m1 s1 t1] =
   Inr [exampleInsights ''Q1 2024'' m1 s1 t1, exampleInsights ''Q2 2024'' m2 s2 t2]"
  by (simp add: Array_sort_def compareQuarters_def parseQuarter_Q1_2024 parseQuarter_Q2_2024
      difference_def)

lemma sort_example_ordered:
  "Array_sort compareQuarters
     [exampleInsights ''Q1 2024'' m1 s1 t1, exampleInsights ''Q2 2024'' m2 s2 t2] =
   Inr [exampleInsights ''Q1 2024'' m1 s1 t1, exampleInsights ''Q2 2024'' m2 s2 t2]"
  by (simp add: Array_sort_def compareQuarters_def parseQuarter_Q1_2024 parseQuarter_Q2_2024
      difference_def)

lemma sort_example_two_years:
  "Array_sort compareQuarters
     [exampleInsights ''Q1 2025'' m1 s1 t1, exampleInsights ''Q4 2024'' m2 s2 t2,
      exampleInsights ''Q2 2024'' m3 s3 t3] =
   Inr [exampleInsights ''Q2 2024'' m3 s3 t3, exampleInsights ''Q4 2024'' m2 s2 t2,
        exampleInsights ''Q1 2025'' m1 s1 t1]"
  by (simp add: Array_sort_def compareQuarters_def parseQuarter_Q1_2025 parseQuarter_Q2_2024
      parseQuarter_Q4_2024 difference_def)

lemma chronological_example:
  "chronological [exampleInsights ''Q1 2024'' m1 s1 t1, exampleInsights ''Q2 2024'' m2 s2 t2]"
  by (simp add: chronological_def labelLessEq_def quarterLessEq_def numberLess_def
      parseQuarter_Q1_2024 parseQuarter_Q2_2024)

lemma chronological_example_two_years:
  "chronological [exampleInsights ''Q2 2024'' m3 s3 t3, exampleInsights ''Q4 2024'' m2 s2 t2,
        exampleInsights ''Q1 2025'' m1 s1 t1]"
  by (simp add: chronological_def labelLessEq_def quarterLessEq_def numberLess_def
      parseQuarter_Q1_2025 parseQuarter_Q2_2024 parseQuarter_Q4_2024)

lemma not_chronological_example_two_years:
  "\<not> chronological [exampleInsights ''Q1 2025'' m1 s1 t1, exampleInsights ''Q4 2024'' m2 s2 t2,
        exampleInsights ''Q2 2024'' m3 s3 t3]"
  by (simp add: chronological_def labelLessEq_def quarterLessEq_def numberLess_def
      parseQuarter_Q1_2025 parseQuarter_Q2_2024 parseQuarter_Q4_2024)

text \<open>Above \<open>2^53\<close> \<open>parseInt\<close> rounds: \<open>2^53 + 1\<close> is read as \<open>2^53\<close>.\<close>

lemma bitLength_example: "bitLength 9007199254740993 = 54"
  by (simp add: bitLength.simps)

lemma parseInt_rounds: "parseInt ''9007199254740993'' = Finite 9007199254740992"
  by (simp add: parseInt_def decimalValue_def digitValue_def roundToDouble_def
      bitLength_example Let_def)

lemma parseInt_exact: "parseInt ''9007199254740992'' = Finite 9007199254740992"
  by (simp add: parseInt_def decimalValue_def digitValue_def roundToDouble_def
      bitLength.simps Let_def)

lemma parseQuarter_rounded_year:
  "parseQuarter ''Q1 9007199254740993'' = Inr \<lparr> q = Finite 1, year = Finite 9007199254740992 \<rparr>"
  "parseQuarter ''Q2 9007199254740992'' = Inr \<lparr> q = Finite 2, year = Finite 9007199254740992 \<rparr>"
  using parseInt_rounds parseInt_exact
  by (simp_all add: parseQuarter_def matchHere_def isDigit_def isSpace_def Let_def
      parseInt_def decimalValue_def digitValue_def roundToDouble_small)

text \<open>
  Two years above \<open>2^53\<close> that \<open>parseInt\<close> rounds to the same number count as the same
  year: the quarter decides, and the record of the year written larger comes first.
\<close>

lemma sort_example_rounded_year:
  "Array_sort compareQuarters
     [exampleInsights ''Q2 9007199254740992'' m2 s2 t2,
      exampleInsights ''Q1 9007199254740993'' m1 s1 t1] =
   Inr [exampleInsights ''Q1 9007199254740993'' m1 s1 t1,
        exampleInsights ''Q2 9007199254740992'' m2 s2 t2]"
  by (simp add: Array_sort_def compareQuarters_def parseQuarter_rounded_year difference_def)

subsection \<open>The most common theme\<close>

text \<open>The sort of the frequency entries never fails, and keeps their number.\<close>

lemma insertLast_compareCounts: "\<exists>r. insertLast compareCounts x ys = Inr r"
proof (induction ys)
  case Nil
  then show ?case by simp
next
  case (Cons y ys)
  obtain c where "compareCounts x y = Inr c"
    by (cases "snd x"; cases "snd y") (simp_all add: compareCounts_def)
  with Cons show ?case by auto
qed

lemma sortLoop_compareCounts: "\<exists>s. sortLoop compareCounts done xs = Inr s"
proof (induction xs arbitrary: "done")
  case Nil
  then show ?case by simp
next
  case (Cons x xs)
  obtain d where "insertLast compareCounts x done = Inr d"
    using insertLast_compareCounts by blast
  with Cons[of d] show ?case by simp
qed

lemma Array_sort_compareCounts: "\<exists>s. Array_sort compareCounts xs = Inr s"
  by (simp add: Array_sort_def sortLoop_compareCounts)

lemma length_Object_entries: "length (Object_entries obj) = length obj"
  using sum_length_filter_compl[of "\<lambda>(k, v). isArrayIndex k" obj]
  by (simp add: Object_entries_def case_prod_unfold)

lemma increment_Nil_iff: "increment kvs k = [] \<longleftrightarrow> kvs = [] \<and> k = ''__proto__''"
  by (cases kvs) (auto split: if_splits)

lemma foldl_increment_Nil_iff:
  "foldl increment kvs themes = [] \<longleftrightarrow> kvs = [] \<and> set themes \<subseteq> {''__proto__''}"
  by (induction themes arbitrary: kvs) (auto simp: increment_Nil_iff)

text \<open>
  \<open>getMostCommonTheme\<close> throws exactly when it is given one or more themes, all of them
  \<open>__proto__\<close>: the frequency object then has no entry.
\<close>

lemma getMostCommonTheme_Inl_iff:
  "getMostCommonTheme themes = Inl e \<longleftrightarrow>
     themes \<noteq> [] \<and> set themes \<subseteq> {''__proto__''} \<and> e = TypeError"
proof (cases "themes = []")
  case True
  then show ?thesis by (simp add: getMostCommonTheme_def)
next
  case False
  obtain s where s: "Array_sort compareCounts (Object_entries (foldl increment [] themes)) = Inr s"
    using Array_sort_compareCounts by blast
  from Array_sort_length[OF s] have len: "length s = length (foldl increment [] themes)"
    by (simp add: length_Object_entries)
  have "s = [] \<longleftrightarrow> set themes \<subseteq> {''__proto__''}"
    using len foldl_increment_Nil_iff[of "[]" themes] by auto
  with False s show ?thesis
    by (cases s) (auto simp: getMostCommonTheme_def)
qed

lemma getMostCommonTheme_proto: "getMostCommonTheme [''__proto__''] = Inl TypeError"
  by (simp add: getMostCommonTheme_Inl_iff)

lemma generateTrendSummary_Inr:
  assumes "e \<in> set evolution" and "t \<in> set (emergingThemes e)" and "t \<noteq> ''__proto__''"
  shows "\<exists>summary. generateTrendSummary trend evolution = Inr summary"
proof -
  from assms have "t \<in> set (concat (map emergingThemes evolution))" by auto
  with assms(3) have "\<not> set (concat (map emergingThemes evolution)) \<subseteq> {''__proto__''}"
    by blast
  then have "\<forall>err. getMostCommonTheme (concat (map emergingThemes evolution)) \<noteq> Inl err"
    by (simp add: getMostCommonTheme_Inl_iff)
  then obtain m where "getMostCommonTheme (concat (map emergingThemes evolution)) = Inr m"
    by (cases "getMostCommonTheme (concat (map emergingThemes evolution))") auto
  then show ?thesis by (simp add: generateTrendSummary_def)
qed

subsection \<open>The report, unfolded\<close>

lemma analyzeQuarterOverQuarter_unfold:
  "analyzeQuarterOverQuarter xs =
     (case Array_sort compareQuarters xs of
        Inl e \<Rightarrow> (Inl e, xs)
      | Inr s \<Rightarrow>
          (if length s < 2 then Inr (getEmptyTrendAnalysis s)
           else case generateTrendSummary (analyzeSentimentTrends s) (analyzeStrategicEvolution s) of
                  Inl e \<Rightarrow> Inl e
                | Inr summary \<Rightarrow>
                    Inr \<lparr> quarters = map quarter s,
                          sentimentTrend = analyzeSentimentTrends s,
                          quarterOverQuarterChanges = analyzeQuarterChanges s,
                          strategicEvolution = analyzeStrategicEvolution s,
                          overallTrendSummary = summary \<rparr>,
           s))"
  by (simp add: analyzeQuarterOverQuarter_def sortInsightsByQuarter_def Let_def split: sum.splits)

lemma analyzeQuarterOverQuarter_short:
  "length xs \<le> 1 \<Longrightarrow> analyzeQuarterOverQuarter xs = (Inr (getEmptyTrendAnalysis xs), xs)"
proof -
  assume "length xs \<le> 1"
  then consider "xs = []" | x where "xs = [x]"
    by (cases xs) auto
  then show ?thesis
    by cases (simp_all add: analyzeQuarterOverQuarter_unfold)
qed

lemma getEmptyTrendAnalysis_fields:
  "quarterOverQuarterChanges (getEmptyTrendAnalysis xs) = []"
  "strategicEvolution (getEmptyTrendAnalysis xs) =
     map (\<lambda>i. \<lparr> evolution_quarter = quarter i, emergingThemes = [], decliningThemes = [],
                 consistentThemes = themesOf i \<rparr>) xs"
  "managementTrend (overallTrendSummary (getEmptyTrendAnalysis xs)) = Stable"
  "qaTrend (overallTrendSummary (getEmptyTrendAnalysis xs)) = Stable"
  by (simp_all add: getEmptyTrendAnalysis_def)

subsection \<open>Theme evolution\<close>

lemma set_Set_of [simp]: "set (Set_of xs) = set xs"
  by (induction xs) auto

lemma distinct_Set_of: "distinct (Set_of xs)"
  by (induction xs) auto

lemma analyzeStrategicEvolution_length [simp]:
  "length (analyzeStrategicEvolution s) = length s"
  by (simp add: analyzeStrategicEvolution_def)

lemma analyzeStrategicEvolution_later:
  assumes "0 < i" "i < length s"
  shows "set (emergingThemes (analyzeStrategicEvolution s ! i)) =
           set (themesOf (s ! i)) - set (themesOf (s ! (i - 1)))"
    and "set (decliningThemes (analyzeStrategicEvolution s ! i)) =
           set (themesOf (s ! (i - 1))) - set (themesOf (s ! i))"
    and "set (consistentThemes (analyzeStrategicEvolution s ! i)) =
           set (themesOf (s ! i)) \<inter> set (themesOf (s ! (i - 1)))"
  using assms by (auto simp: analyzeStrategicEvolution_def Let_def)

lemma analyzeStrategicEvolution_first:
  assumes "0 < length s"
  shows "emergingThemes (analyzeStrategicEvolution s ! 0) = Set_of (themesOf (s ! 0))"
    and "decliningThemes (analyzeStrategicEvolution s ! 0) = []"
    and "consistentThemes (analyzeStrategicEvolution s ! 0) = []"
  using assms by (auto simp: analyzeStrategicEvolution_def Let_def)

text \<open>
  With two or more records in the sorted array, of which the first has a theme other
  than \<open>__proto__\<close>, the summary is computed and the report is returned.
\<close>

lemma analyzeQuarterOverQuarter_report:
  assumes s: "Array_sort compareQuarters xs = Inr s" and len: "2 \<le> length s"
    and t: "t \<in> set (themesOf (s ! 0))" "t \<noteq> ''__proto__''"
  shows "\<exists>summary. analyzeQuarterOverQuarter xs =
           (Inr \<lparr> quarters = map quarter s,
                  sentimentTrend = analyzeSentimentTrends s,
                  quarterOverQuarterChanges = analyzeQuarterChanges s,
                  strategicEvolution = analyzeStrategicEvolution s,
                  overallTrendSummary = summary \<rparr>, s)"
proof -
  from len have pos: "0 < length s" by linarith
  then have mem: "analyzeStrategicEvolution s ! 0 \<in> set (analyzeStrategicEvolution s)"
    by simp
  from t(1) have "t \<in> set (emergingThemes (analyzeStrategicEvolution s ! 0))"
    by (simp add: analyzeStrategicEvolution_first(1)[OF pos])
  from generateTrendSummary_Inr[OF mem this t(2)] obtain summary where
    "generateTrendSummary (analyzeSentimentTrends s) (analyzeStrategicEvolution s) = Inr summary"
    by blast
  with s len show ?thesis by (simp add: analyzeQuarterOverQuarter_unfold)
qed

text \<open>
  A theme list of the first record that holds \<open>__proto__\<close> alone makes the call throw a
  \<open>TypeError\<close>, although both labels are well formed and in order.
\<close>

lemma analyzeQuarterOverQuarter_proto:
  "fst (analyzeQuarterOverQuarter
          [exampleInsights ''Q1 2024'' ''positive'' 0.5 [''__proto__''],
           exampleInsights ''Q2 2024'' ''positive'' 0.75 [''__proto__'']]) = Inl TypeError"
  unfolding analyzeQuarterOverQuarter_unfold sort_example_ordered
  by (simp add: generateTrendSummary_def analyzeStrategicEvolution_def getMostCommonTheme_proto Let_def)

lemma theme_evolution_later:
  assumes "fst (analyzeQuarterOverQuarter insights) = Inr report" and "chronological insights"
    and "0 < i" and "i < length insights"
  shows "set (emergingThemes (strategicEvolution report ! i)) =
           set (themesOf (insights ! i)) - set (themesOf (insights ! (i - 1))) \<and>
         set (decliningThemes (strategicEvolution report ! i)) =
           set (themesOf (insights ! (i - 1))) - set (themesOf (insights ! i)) \<and>
         set (consistentThemes (strategicEvolution report ! i)) =
           set (themesOf (insights ! i)) \<inter> set (themesOf (insights ! (i - 1)))"
proof -
  from assms(2) have s: "Array_sort compareQuarters insights = Inr insights"
    by (rule Array_sort_chronological)
  from assms(3,4) have "\<not> length insights < 2" by simp
  with assms(1) have "strategicEvolution report = analyzeStrategicEvolution insights"
    unfolding analyzeQuarterOverQuarter_unfold s by (auto split: sum.splits)
  with assms(3,4) show ?thesis
    by (simp add: analyzeStrategicEvolution_later)
qed

text \<open>
  C1. The claim asks, in the entry of the earliest quarter, for no emerging themes and
  for the quarter's themes as consistent themes. \<open>getEmptyTrendAnalysis\<close>, which writes
  the report of a single record, writes the entry that way. \<open>analyzeStrategicEvolution\<close>,
  which writes the entries of two or more records, compares the earliest quarter with
  the empty set: on two records in chronological order, the first with the themes
  \<open>AI\<close> and \<open>Gaming\<close>, both themes are emerging and none is consistent, and they are
  reported as the strategic shift and as new focus areas. The entry of the second
  quarter is as the claim says.
\<close>

theorem C1_first_quarter_themes:
  "chronological
     [exampleInsights ''Q1 2024'' ''positive'' 0.5 [''AI'', ''Gaming''],
      exampleInsights ''Q2 2024'' ''positive'' 0.75 [''AI'', ''DataCenter'']] \<and>
   (\<exists>r. fst (analyzeQuarterOverQuarter
           [exampleInsights ''Q1 2024'' ''positive'' 0.5 [''AI'', ''Gaming''],
            exampleInsights ''Q2 2024'' ''positive'' 0.75 [''AI'', ''DataCenter'']]) = Inr r \<and>
       emergingThemes (strategicEvolution r ! 0) = [''AI'', ''Gaming''] \<and>
       decliningThemes (strategicEvolution r ! 0) = [] \<and>
       consistentThemes (strategicEvolution r ! 0) = [] \<and>
       emergingThemes (strategicEvolution r ! 1) = [''DataCenter''] \<and>
       decliningThemes (strategicEvolution r ! 1) = [''Gaming''] \<and>
       consistentThemes (strategicEvolution r ! 1) = [''AI''] \<and>
       strategicShift (overallTrendSummary r) = ''AI'' \<and>
       keyChanges (overallTrendSummary r) =
         [''Management sentiment has improved over time'',
          ''New strategic focus areas emerged: AI, Gaming'']) \<and>
   strategicEvolution (getEmptyTrendAnalysis
       [exampleInsights ''Q1 2024'' ''positive'' 0.5 [''AI'', ''Gaming'']]) =
     [\<lparr> evolution_quarter = ''Q1 2024'', emergingThemes = [], decliningThemes = [],
        consistentThemes = [''AI'', ''Gaming''] \<rparr>]"
proof (intro conjI)
  show "chronological
     [exampleInsights ''Q1 2024'' ''positive'' 0.5 [''AI'', ''Gaming''],
      exampleInsights ''Q2 2024'' ''positive'' 0.75 [''AI'', ''DataCenter'']]"
    by (rule chronological_example)
  have m: "getMostCommonTheme [''AI'', ''Gaming'', ''DataCenter''] = Inr (Some ''AI'')"
    by (simp add: getMostCommonTheme_def Object_prototype_keys_def Object_entries_def
        isArrayIndex_def isDigit_def Array_sort_def compareCounts_def)
  show "\<exists>r. fst (analyzeQuarterOverQuarter
           [exampleInsights ''Q1 2024'' ''positive'' 0.5 [''AI'', ''Gaming''],
            exampleInsights ''Q2 2024'' ''positive'' 0.75 [''AI'', ''DataCenter'']]) = Inr r \<and>
       emergingThemes (strategicEvolution r ! 0) = [''AI'', ''Gaming''] \<and>
       decliningThemes (strategicEvolution r ! 0) = [] \<and>
       consistentThemes (strategicEvolution r ! 0) = [] \<and>
       emergingThemes (strategicEvolution r ! 1) = [''DataCenter''] \<and>
       decliningThemes (strategicEvolution r ! 1) = [''Gaming''] \<and>
       consistentThemes (strategicEvolution r ! 1) = [''AI''] \<and>
       strategicShift (overallTrendSummary r) = ''AI'' \<and>
       keyChanges (overallTrendSummary r) =
         [''Management sentiment has improved over time'',
          ''New strategic focus areas emerged: AI, Gaming'']"
    unfolding analyzeQuarterOverQuarter_unfold sort_example_ordered
    by (simp add: generateTrendSummary_def analyzeStrategicEvolution_def m Let_def
        identifyKeyChanges_def calculateOverallTrend_def analyzeSentimentTrends_def)
  show "strategicEvolution (getEmptyTrendAnalysis
       [exampleInsights ''Q1 2024'' ''positive'' 0.5 [''AI'', ''Gaming'']]) =
     [\<lparr> evolution_quarter = ''Q1 2024'', emergingThemes = [], decliningThemes = [],
        consistentThemes = [''AI'', ''Gaming''] \<rparr>]"
    by (simp add: getEmptyTrendAnalysis_fields)
qed

subsection \<open>Sentiment shift and significance\<close>

text \<open>
  C2. The claim asks for \<open>No change\<close> exactly when the two labels are equal. The table
  maps \<open>negative\<close> to 0, and \<open>sentimentOrder[from] || 1\<close> turns that 0 into 1, the rank
  of \<open>neutral\<close>: a move from \<open>negative\<close> to \<open>neutral\<close> is reported as \<open>No change\<close>.
\<close>

theorem C2_negative_to_neutral:
  "\<exists>r. fst (analyzeQuarterOverQuarter
          [exampleInsights ''Q1 2024'' ''negative'' (- 0.5) [''AI''],
           exampleInsights ''Q2 2024'' ''neutral'' 0 [''AI'']]) = Inr r \<and>
     sentimentShift (managementChange (quarterOverQuarterChanges r ! 0)) = ''No change'' \<and>
     point_sentiment (management (sentimentTrend r) ! 0) = ''negative'' \<and>
     point_sentiment (management (sentimentTrend r) ! 1) = ''neutral''"
proof -
  let ?a = "exampleInsights ''Q1 2024'' ''negative'' (- 0.5) [''AI'']"
  let ?b = "exampleInsights ''Q2 2024'' ''neutral'' 0 [''AI'']"
  have s: "Array_sort compareQuarters [?a, ?b] = Inr [?a, ?b]"
    by (rule sort_example_ordered)
  have "2 \<le> length [?a, ?b]" "''AI'' \<in> set (themesOf ([?a, ?b] ! 0))"
    "''AI'' \<noteq> ''__proto__''"
    by simp_all
  from analyzeQuarterOverQuarter_report[OF s this]
  obtain r where "fst (analyzeQuarterOverQuarter [?a, ?b]) = Inr r"
    and "sentimentTrend r = analyzeSentimentTrends [?a, ?b]"
    and "quarterOverQuarterChanges r = analyzeQuarterChanges [?a, ?b]"
    by auto
  then show ?thesis
    by (intro exI[of _ r])
      (simp add: analyzeQuarterChanges_def analyzeSentimentTrends_def sentimentChange_def
        describeSentimentShift_def sentimentOrder_def orOne_def greaterThan_def Let_def)
qed

lemma getChangeSignificance_tiers:
  "(getChangeSignificance d = Major \<longleftrightarrow> \<bar>d\<bar> \<ge> 0.5) \<and>
   (getChangeSignificance d = Moderate \<longleftrightarrow> 0.2 \<le> \<bar>d\<bar> \<and> \<bar>d\<bar> < 0.5) \<and>
   (getChangeSignificance d = Minor \<longleftrightarrow> \<bar>d\<bar> < 0.2)"
  by (auto simp: getChangeSignificance_def Let_def)

lemma analyzeQuarterChanges_significance:
  "c \<in> set (analyzeQuarterChanges s) \<Longrightarrow>
     significance (managementChange c) = getChangeSignificance (scoreDelta (managementChange c)) \<and>
     significance (qaChange c) = getChangeSignificance (scoreDelta (qaChange c))"
  by (auto simp: analyzeQuarterChanges_def sentimentChange_def Let_def)

lemma report_changes:
  "fst (analyzeQuarterOverQuarter xs) = Inr r \<Longrightarrow>
     \<exists>s. Array_sort compareQuarters xs = Inr s \<and> quarterOverQuarterChanges r = analyzeQuarterChanges s"
  by (auto simp: analyzeQuarterOverQuarter_unfold getEmptyTrendAnalysis_def analyzeQuarterChanges_def
      split: sum.splits if_splits)

text \<open>
  C7. The significance of a change is a function of the absolute value of its score
  delta: major from 0.5, moderate from 0.2 and below 0.5, minor below 0.2; the
  boundary values 0.5, 0.49999, 0.2 and 0.1999 fall as the claim lists them, and
  every change of a report carries the tier of its own score delta.
\<close>

theorem C7_significance_tiers:
  "(getChangeSignificance d = Major \<longleftrightarrow> \<bar>d\<bar> \<ge> 0.5) \<and>
   (getChangeSignificance d = Moderate \<longleftrightarrow> 0.2 \<le> \<bar>d\<bar> \<and> \<bar>d\<bar> < 0.5) \<and>
   (getChangeSignificance d = Minor \<longleftrightarrow> \<bar>d\<bar> < 0.2) \<and>
   getChangeSignificance 0.5 = Major \<and> getChangeSignificance 0.49999 = Moderate \<and>
   getChangeSignificance 0.2 = Moderate \<and> getChangeSignificance 0.1999 = Minor \<and>
   (fst (analyzeQuarterOverQuarter insights) = Inr report \<longrightarrow>
      (\<forall>c \<in> set (quarterOverQuarterChanges report).
         significance (managementChange c) = getChangeSignificance (scoreDelta (managementChange c)) \<and>
         significance (qaChange c) = getChangeSignificance (scoreDelta (qaChange c))))"
proof -
  have ex: "getChangeSignificance 0.5 = Major \<and> getChangeSignificance 0.49999 = Moderate \<and>
    getChangeSignificance 0.2 = Moderate \<and> getChangeSignificance 0.1999 = Minor"
    by (simp add: getChangeSignificance_def)
  have "\<forall>c \<in> set (quarterOverQuarterChanges report).
         significance (managementChange c) = getChangeSignificance (scoreDelta (managementChange c)) \<and>
         significance (qaChange c) = getChangeSignificance (scoreDelta (qaChange c))"
    if "fst (analyzeQuarterOverQuarter insights) = Inr report"
    using report_changes[OF that] analyzeQuarterChanges_significance by auto
  with getChangeSignificance_tiers[of d] ex show ?thesis by blast
qed

theorem C7_significance_tiers_witness:
  "\<exists>r. fst (analyzeQuarterOverQuarter
          [exampleInsights ''Q2 2024'' ''positive'' 0.75 [''AI''],
           exampleInsights ''Q1 2024'' ''positive'' 0.5 [''AI'']]) = Inr r \<and>
     length (quarterOverQuarterChanges r) = 1 \<and>
     scoreDelta (managementChange (quarterOverQuarterChanges r ! 0)) = 0.25 \<and>
     significance (managementChange (quarterOverQuarterChanges r ! 0)) = Moderate \<and>
     significance (qaChange (quarterOverQuarterChanges r ! 0)) = Minor"
proof -
  let ?xs = "[exampleInsights ''Q2 2024'' ''positive'' 0.75 [''AI''],
              exampleInsights ''Q1 2024'' ''positive'' 0.5 [''AI'']]"
  let ?a = "exampleInsights ''Q1 2024'' ''positive'' 0.5 [''AI'']"
  let ?b = "exampleInsights ''Q2 2024'' ''positive'' 0.75 [''AI'']"
  have s: "Array_sort compareQuarters ?xs = Inr [?a, ?b]"
    by (rule sort_example_swapped)
  have "2 \<le> length [?a, ?b]" "''AI'' \<in> set (themesOf ([?a, ?b] ! 0))"
    "''AI'' \<noteq> ''__proto__''"
    by simp_all
  from analyzeQuarterOverQuarter_report[OF s this]
  obtain r where r: "fst (analyzeQuarterOverQuarter ?xs) = Inr r"
    and changes: "quarterOverQuarterChanges r = analyzeQuarterChanges [?a, ?b]"
    by auto
  have len: "length (quarterOverQuarterChanges r) = 1"
    and d: "scoreDelta (managementChange (quarterOverQuarterChanges r ! 0)) = 0.25"
    and dq: "scoreDelta (qaChange (quarterOverQuarterChanges r ! 0)) = 0"
    unfolding changes
    by (simp_all add: analyzeQuarterChanges_def sentimentChange_def Let_def)
  from len have mem: "quarterOverQuarterChanges r ! 0 \<in> set (quarterOverQuarterChanges r)"
    by simp
  note inst = C7_significance_tiers[of "0.25" ?xs r]
  from inst r have "\<forall>c \<in> set (quarterOverQuarterChanges r).
         significance (managementChange c) = getChangeSignificance (scoreDelta (managementChange c)) \<and>
         significance (qaChange c) = getChangeSignificance (scoreDelta (qaChange c))"
    by blast
  with mem have "significance (managementChange (quarterOverQuarterChanges r ! 0)) =
      getChangeSignificance (scoreDelta (managementChange (quarterOverQuarterChanges r ! 0)))"
    and "significance (qaChange (quarterOverQuarterChanges r ! 0)) =
      getChangeSignificance (scoreDelta (qaChange (quarterOverQuarterChanges r ! 0)))"
    by blast+
  then have m: "significance (managementChange (quarterOverQuarterChanges r ! 0)) =
      getChangeSignificance 0.25"
    and q: "significance (qaChange (quarterOverQuarterChanges r ! 0)) = getChangeSignificance 0"
    unfolding d dq by blast+
  from inst have "getChangeSignificance 0.25 = Moderate" by simp
  moreover have "getChangeSignificance 0 = Minor" by (simp add: getChangeSignificance_def)
  ultimately show ?thesis using r len d m q by (intro exI[of _ r]) (simp only: simp_thms)
qed

subsection \<open>Shape of the report\<close>

text \<open>
  C8. In every report the quarters and the two sentiment series have the same length,
  which is the number of input records, and the number of quarter-over-quarter
  changes is \<open>max(0, quarters.length - 1)\<close>, on the normal and on the degenerate path.
\<close>

theorem C8_lengths:
  "fst (analyzeQuarterOverQuarter insights) = Inr report \<Longrightarrow>
     length (quarters report) = length (management (sentimentTrend report)) \<and>
     length (management (sentimentTrend report)) = length (qa (sentimentTrend report)) \<and>
     int (length (quarterOverQuarterChanges report)) = max 0 (int (length (quarters report)) - 1) \<and>
     length (quarters report) = length insights"
  by (auto simp: analyzeQuarterOverQuarter_unfold getEmptyTrendAnalysis_def analyzeQuarterChanges_def
      analyzeSentimentTrends_def split: sum.splits if_splits dest: Array_sort_length)

theorem C8_lengths_witness:
  "(\<exists>r. fst (analyzeQuarterOverQuarter
          [exampleInsights ''Q2 2024'' ''positive'' 0.75 [''AI''],
           exampleInsights ''Q1 2024'' ''positive'' 0.5 [''AI'']]) = Inr r \<and>
     length (quarters r) = 2 \<and> length (management (sentimentTrend r)) = 2 \<and>
     length (qa (sentimentTrend r)) = 2 \<and> length (quarterOverQuarterChanges r) = 1) \<and>
   (\<exists>r. fst (analyzeQuarterOverQuarter
          [exampleInsights ''Q1 2024'' ''positive'' 0.5 [''AI'']]) = Inr r \<and>
     length (quarters r) = 1 \<and> length (management (sentimentTrend r)) = 1 \<and>
     length (qa (sentimentTrend r)) = 1 \<and> length (quarterOverQuarterChanges r) = 0)"
proof
  let ?xs = "[exampleInsights ''Q2 2024'' ''positive'' 0.75 [''AI''],
              exampleInsights ''Q1 2024'' ''positive'' 0.5 [''AI'']]"
  let ?a = "exampleInsights ''Q1 2024'' ''positive'' 0.5 [''AI'']"
  let ?b = "exampleInsights ''Q2 2024'' ''positive'' 0.75 [''AI'']"
  have s: "Array_sort compareQuarters ?xs = Inr [?a, ?b]"
    by (rule sort_example_swapped)
  have "2 \<le> length [?a, ?b]" "''AI'' \<in> set (themesOf ([?a, ?b] ! 0))"
    "''AI'' \<noteq> ''__proto__''"
    by simp_all
  from analyzeQuarterOverQuarter_report[OF s this]
  obtain r where r: "fst (analyzeQuarterOverQuarter ?xs) = Inr r"
    by auto
  from C8_lengths[OF r] r
  show "\<exists>r. fst (analyzeQuarterOverQuarter ?xs) = Inr r \<and>
     length (quarters r) = 2 \<and> length (management (sentimentTrend r)) = 2 \<and>
     length (qa (sentimentTrend r)) = 2 \<and> length (quarterOverQuarterChanges r) = 1"
    by auto
next
  let ?ys = "[exampleInsights ''Q1 2024'' ''positive'' 0.5 [''AI'']]"
  obtain r where r: "fst (analyzeQuarterOverQuarter ?ys) = Inr r"
    by (simp add: analyzeQuarterOverQuarter_short)
  from C8_lengths[OF r] r
  show "\<exists>r. fst (analyzeQuarterOverQuarter ?ys) = Inr r \<and>
     length (quarters r) = 1 \<and> length (management (sentimentTrend r)) = 1 \<and>
     length (qa (sentimentTrend r)) = 1 \<and> length (quarterOverQuarterChanges r) = 0"
    by auto
qed

text \<open>
  C3 as stated asks for an empty \<open>strategicEvolution\<close> list on 0 or 1 records; for one
  record the list has one entry.
\<close>

theorem C3_single_record_counterexample:
  "\<not> (\<forall>insights. length insights \<le> 1 \<longrightarrow>
        (\<exists>r. fst (analyzeQuarterOverQuarter insights) = Inr r \<and>
             quarterOverQuarterChanges r = [] \<and> strategicEvolution r = [] \<and>
             managementTrend (overallTrendSummary r) = Stable \<and>
             qaTrend (overallTrendSummary r) = Stable))"
proof
  assume a: "\<forall>insights. length insights \<le> 1 \<longrightarrow>
        (\<exists>r. fst (analyzeQuarterOverQuarter insights) = Inr r \<and>
             quarterOverQuarterChanges r = [] \<and> strategicEvolution r = [] \<and>
             managementTrend (overallTrendSummary r) = Stable \<and>
             qaTrend (overallTrendSummary r) = Stable)"
  let ?xs = "[exampleInsights ''Q1 2024'' ''positive'' 0.5 [''AI'']]"
  have "length ?xs \<le> 1" by simp
  with a obtain r where "fst (analyzeQuarterOverQuarter ?xs) = Inr r" "strategicEvolution r = []"
    by blast
  then show False
    by (auto simp: analyzeQuarterOverQuarter_short getEmptyTrendAnalysis_fields)
qed

text \<open>
  C3, amended. For 0 or 1 records \<open>analyzeQuarterOverQuarter\<close> returns a report with no
  quarter-over-quarter changes, one \<open>strategicEvolution\<close> entry per record (no emerging
  and no declining themes, the record's theme names as consistent themes), and both
  trends stable.
\<close>

theorem C3_degenerate_report:
  "length insights \<le> 1 \<Longrightarrow>
     \<exists>r. fst (analyzeQuarterOverQuarter insights) = Inr r \<and>
         quarterOverQuarterChanges r = [] \<and>
         strategicEvolution r =
           map (\<lambda>i. \<lparr> evolution_quarter = quarter i, emergingThemes = [], decliningThemes = [],
                       consistentThemes = themesOf i \<rparr>) insights \<and>
         managementTrend (overallTrendSummary r) = Stable \<and>
         qaTrend (overallTrendSummary r) = Stable"
proof -
  assume "length insights \<le> 1"
  then have "analyzeQuarterOverQuarter insights = (Inr (getEmptyTrendAnalysis insights), insights)"
    by (rule analyzeQuarterOverQuarter_short)
  then have "fst (analyzeQuarterOverQuarter insights) = Inr (getEmptyTrendAnalysis insights)"
    by simp
  then show ?thesis
    by (simp add: getEmptyTrendAnalysis_fields)
qed

theorem C3_degenerate_report_witness:
  "\<exists>r. fst (analyzeQuarterOverQuarter [exampleInsights ''Q1 2024'' ''positive'' 0.5 [''AI'']]) = Inr r \<and>
       quarterOverQuarterChanges r = [] \<and>
       strategicEvolution r =
         [\<lparr> evolution_quarter = ''Q1 2024'', emergingThemes = [], decliningThemes = [],
            consistentThemes = [''AI''] \<rparr>] \<and>
       managementTrend (overallTrendSummary r) = Stable \<and>
       qaTrend (overallTrendSummary r) = Stable"
  using C3_degenerate_report[of "[exampleInsights ''Q1 2024'' ''positive'' 0.5 [''AI'']]"]
  by simp

subsection \<open>Malformed quarter labels\<close>

text \<open>
  C4 as stated asks for the error on every input that contains a malformed label; a
  single record with a malformed label gives the degenerate report.
\<close>

theorem C4_single_record_counterexample:
  "\<not> (\<forall>insights. (\<exists>i \<in> set insights. \<exists>e. parseQuarter (quarter i) = Inl e) \<longrightarrow>
        (\<exists>l. fst (analyzeQuarterOverQuarter insights) = Inl (InvalidQuarterFormat l)))"
proof
  assume a: "\<forall>insights. (\<exists>i \<in> set insights. \<exists>e. parseQuarter (quarter i) = Inl e) \<longrightarrow>
        (\<exists>l. fst (analyzeQuarterOverQuarter insights) = Inl (InvalidQuarterFormat l))"
  let ?xs = "[exampleInsights ''Quarter One 2024'' ''positive'' 0.5 [''AI'']]"
  have "\<exists>i \<in> set ?xs. \<exists>e. parseQuarter (quarter i) = Inl e"
    by (simp add: parseQuarter_Quarter_One)
  with a obtain l where "fst (analyzeQuarterOverQuarter ?xs) = Inl (InvalidQuarterFormat l)"
    by blast
  then show False by (simp add: analyzeQuarterOverQuarter_short)
qed

text \<open>
  C4, amended. On two or more records of which one has a malformed label,
  \<open>analyzeQuarterOverQuarter\<close> fails with the invalid-quarter-format error of a
  malformed label of the input, and produces no report.
\<close>

theorem C4_malformed_label_fails:
  assumes "2 \<le> length insights" and "i \<in> set insights" and "parseQuarter (quarter i) = Inl e"
  shows "\<exists>z \<in> set insights.
           parseQuarter (quarter z) = Inl (InvalidQuarterFormat (quarter z)) \<and>
           fst (analyzeQuarterOverQuarter insights) = Inl (InvalidQuarterFormat (quarter z))"
proof (cases "Array_sort compareQuarters insights")
  case (Inl e')
  from Array_sort_Inl[OF Inl] obtain z where "z \<in> set insights" "\<not> wellFormed (quarter z)"
    "e' = InvalidQuarterFormat (quarter z)" by blast
  with Inl show ?thesis
    by (auto simp: analyzeQuarterOverQuarter_unfold parseQuarter_Inl_iff)
next
  case (Inr s)
  from Array_sort_Inr_wellFormed[OF Inr assms(1)] assms(2) have "wellFormed (quarter i)" by blast
  with assms(3) show ?thesis by (simp add: parseQuarter_Inl_iff)
qed

theorem C4_malformed_label_fails_witness:
  "fst (analyzeQuarterOverQuarter
          [exampleInsights ''Q1 2024'' ''positive'' 0.5 [''AI''],
           exampleInsights ''Quarter One 2024'' ''positive'' 0.75 [''AI'']]) =
     Inl (InvalidQuarterFormat ''Quarter One 2024'')"
proof -
  let ?a = "exampleInsights ''Q1 2024'' ''positive'' 0.5 [''AI'']"
  let ?b = "exampleInsights ''Quarter One 2024'' ''positive'' 0.75 [''AI'']"
  have "2 \<le> length [?a, ?b]" "?b \<in> set [?a, ?b]"
    "parseQuarter (quarter ?b) = Inl (InvalidQuarterFormat ''Quarter One 2024'')"
    by (simp_all add: parseQuarter_Quarter_One)
  from C4_malformed_label_fails[OF this] obtain z where z: "z \<in> set [?a, ?b]"
    "parseQuarter (quarter z) = Inl (InvalidQuarterFormat (quarter z))"
    "fst (analyzeQuarterOverQuarter [?a, ?b]) = Inl (InvalidQuarterFormat (quarter z))"
    by blast
  from z(1,2) have "z = ?b" by (auto simp: parseQuarter_Q1_2024)
  with z(3) show ?thesis by simp
qed

subsection \<open>The argument array\<close>

text \<open>
  C5 as stated asks that the argument holds the same records in the same order after
  the call; two records given in reverse chronological order are swapped.
\<close>

theorem C5_argument_reordered_counterexample:
  "\<not> (\<forall>insights. snd (analyzeQuarterOverQuarter insights) = insights)"
proof
  assume a: "\<forall>insights. snd (analyzeQuarterOverQuarter insights) = insights"
  let ?a = "exampleInsights ''Q2 2024'' ''positive'' 0.75 [''AI'']"
  let ?b = "exampleInsights ''Q1 2024'' ''positive'' 0.5 [''AI'']"
  have "map quarter (snd (analyzeQuarterOverQuarter [?a, ?b])) = [''Q1 2024'', ''Q2 2024'']"
    unfolding analyzeQuarterOverQuarter_unfold sort_example_swapped by simp
  moreover from a have "snd (analyzeQuarterOverQuarter [?a, ?b]) = [?a, ?b]" by blast
  then have "map quarter (snd (analyzeQuarterOverQuarter [?a, ?b])) = [''Q2 2024'', ''Q1 2024'']"
    by simp
  ultimately show False by simp
qed

text \<open>
  C5, amended. \<open>analyzeQuarterOverQuarter\<close> sorts its argument in place: after a call
  that returns a report the argument holds the same records, in chronological order
  (by the year of the label, and by the quarter between equal years, both as the
  numbers \<open>parseInt\<close> returns), which is the order of the report's quarters; an argument
  that is in chronological order already is left as it was.
\<close>

theorem C5_argument_sorted_in_place:
  "(fst (analyzeQuarterOverQuarter insights) = Inr report \<longrightarrow>
      mset (snd (analyzeQuarterOverQuarter insights)) = mset insights \<and>
      chronological (snd (analyzeQuarterOverQuarter insights)) \<and>
      quarters report = map quarter (snd (analyzeQuarterOverQuarter insights))) \<and>
   (chronological insights \<longrightarrow> snd (analyzeQuarterOverQuarter insights) = insights)"
proof (intro conjI impI)
  assume r: "fst (analyzeQuarterOverQuarter insights) = Inr report"
  then obtain s where s: "Array_sort compareQuarters insights = Inr s"
    by (cases "Array_sort compareQuarters insights") (auto simp: analyzeQuarterOverQuarter_unfold)
  then have after: "snd (analyzeQuarterOverQuarter insights) = s"
    by (simp add: analyzeQuarterOverQuarter_unfold)
  show "mset (snd (analyzeQuarterOverQuarter insights)) = mset insights"
    using after Array_sort_mset[OF s] by simp
  show "chronological (snd (analyzeQuarterOverQuarter insights))"
    using after Array_sort_sorted[OF s] by simp
  show "quarters report = map quarter (snd (analyzeQuarterOverQuarter insights))"
    using r s
    by (auto simp: analyzeQuarterOverQuarter_unfold getEmptyTrendAnalysis_def
        split: if_splits sum.splits)
next
  assume "chronological insights"
  then show "snd (analyzeQuarterOverQuarter insights) = insights"
    by (simp add: analyzeQuarterOverQuarter_unfold Array_sort_chronological)
qed

theorem C5_argument_sorted_in_place_witness:
  "(\<exists>r. fst (analyzeQuarterOverQuarter
          [exampleInsights ''Q1 2025'' ''positive'' 0.75 [''AI''],
           exampleInsights ''Q4 2024'' ''positive'' 0.5 [''AI''],
           exampleInsights ''Q2 2024'' ''neutral'' 0.25 [''AI'']]) = Inr r \<and>
      quarters r = [''Q2 2024'', ''Q4 2024'', ''Q1 2025''] \<and>
      map quarter (snd (analyzeQuarterOverQuarter
          [exampleInsights ''Q1 2025'' ''positive'' 0.75 [''AI''],
           exampleInsights ''Q4 2024'' ''positive'' 0.5 [''AI''],
           exampleInsights ''Q2 2024'' ''neutral'' 0.25 [''AI'']])) =
        [''Q2 2024'', ''Q4 2024'', ''Q1 2025''] \<and>
      chronological (snd (analyzeQuarterOverQuarter
          [exampleInsights ''Q1 2025'' ''positive'' 0.75 [''AI''],
           exampleInsights ''Q4 2024'' ''positive'' 0.5 [''AI''],
           exampleInsights ''Q2 2024'' ''neutral'' 0.25 [''AI'']])) \<and>
      \<not> chronological
          [exampleInsights ''Q1 2025'' ''positive'' 0.75 [''AI''],
           exampleInsights ''Q4 2024'' ''positive'' 0.5 [''AI''],
           exampleInsights ''Q2 2024'' ''neutral'' 0.25 [''AI'']]) \<and>
   chronological
     [exampleInsights ''Q2 2024'' ''neutral'' 0.25 [''AI''],
      exampleInsights ''Q4 2024'' ''positive'' 0.5 [''AI''],
      exampleInsights ''Q1 2025'' ''positive'' 0.75 [''AI'']] \<and>
   map quarter (snd (analyzeQuarterOverQuarter
     [exampleInsights ''Q2 2024'' ''neutral'' 0.25 [''AI''],
      exampleInsights ''Q4 2024'' ''positive'' 0.5 [''AI''],
      exampleInsights ''Q1 2025'' ''positive'' 0.75 [''AI'']])) =
     [''Q2 2024'', ''Q4 2024'', ''Q1 2025'']"
proof (intro conjI)
  let ?a = "exampleInsights ''Q1 2025'' ''positive'' 0.75 [''AI'']"
  let ?b = "exampleInsights ''Q4 2024'' ''positive'' 0.5 [''AI'']"
  let ?c = "exampleInsights ''Q2 2024'' ''neutral'' 0.25 [''AI'']"
  have s: "Array_sort compareQuarters [?a, ?b, ?c] = Inr [?c, ?b, ?a]"
    by (rule sort_example_two_years)
  have "2 \<le> length [?c, ?b, ?a]" "''AI'' \<in> set (themesOf ([?c, ?b, ?a] ! 0))"
    "''AI'' \<noteq> ''__proto__''"
    by simp_all
  from analyzeQuarterOverQuarter_report[OF s this]
  obtain r where r: "fst (analyzeQuarterOverQuarter [?a, ?b, ?c]) = Inr r"
    by auto
  have after: "map quarter (snd (analyzeQuarterOverQuarter [?a, ?b, ?c])) =
      [''Q2 2024'', ''Q4 2024'', ''Q1 2025'']"
    unfolding analyzeQuarterOverQuarter_unfold s by simp
  from C5_argument_sorted_in_place[of "[?a, ?b, ?c]" r] r
  have c: "chronological (snd (analyzeQuarterOverQuarter [?a, ?b, ?c]))"
    and q: "quarters r = map quarter (snd (analyzeQuarterOverQuarter [?a, ?b, ?c]))"
    by blast+
  from q have qr: "quarters r = [''Q2 2024'', ''Q4 2024'', ''Q1 2025'']"
    unfolding after .
  have nc: "\<not> chronological [?a, ?b, ?c]"
    by (rule not_chronological_example_two_years)
  from r qr after c nc
  show "\<exists>r. fst (analyzeQuarterOverQuarter [?a, ?b, ?c]) = Inr r \<and>
      quarters r = [''Q2 2024'', ''Q4 2024'', ''Q1 2025''] \<and>
      map quarter (snd (analyzeQuarterOverQuarter [?a, ?b, ?c])) =
        [''Q2 2024'', ''Q4 2024'', ''Q1 2025''] \<and>
      chronological (snd (analyzeQuarterOverQuarter [?a, ?b, ?c])) \<and>
      \<not> chronological [?a, ?b, ?c]"
    by (intro exI[of _ r]) (simp only: simp_thms)
  show sorted: "chronological [?c, ?b, ?a]"
    by (rule chronological_example_two_years)
  from C5_argument_sorted_in_place[of "[?c, ?b, ?a]"] sorted
  have "snd (analyzeQuarterOverQuarter [?c, ?b, ?a]) = [?c, ?b, ?a]"
    by blast
  then show "map quarter (snd (analyzeQuarterOverQuarter [?c, ?b, ?a])) =
      [''Q2 2024'', ''Q4 2024'', ''Q1 2025'']"
    by simp
qed

text \<open>
  C10. A single record with a malformed quarter label is sorted without any call of
  the comparator, so the label is never parsed and \<open>analyzeQuarterOverQuarter\<close> returns
  the degenerate report, as it does on the empty list.
\<close>

theorem C10_single_malformed_record:
  "parseQuarter (quarter i) = Inl e \<Longrightarrow>
     Array_sort compareQuarters [i] = Inr [i] \<and>
     fst (analyzeQuarterOverQuarter [i]) = Inr (getEmptyTrendAnalysis [i]) \<and>
     fst (analyzeQuarterOverQuarter []) = Inr (getEmptyTrendAnalysis [])"
proof (intro conjI)
  show "Array_sort compareQuarters [i] = Inr [i]"
    by simp
  have "length [i] \<le> 1" by simp
  then show "fst (analyzeQuarterOverQuarter [i]) = Inr (getEmptyTrendAnalysis [i])"
    by (simp only: analyzeQuarterOverQuarter_short fst_conv)
  show "fst (analyzeQuarterOverQuarter []) = Inr (getEmptyTrendAnalysis [])"
    by (simp add: analyzeQuarterOverQuarter_short)
qed

theorem C10_single_malformed_record_witness:
  "parseQuarter ''Quarter One 2024'' = Inl (InvalidQuarterFormat ''Quarter One 2024'') \<and>
   fst (analyzeQuarterOverQuarter [exampleInsights ''Quarter One 2024'' ''positive'' 0.5 [''AI'']]) =
     Inr (getEmptyTrendAnalysis [exampleInsights ''Quarter One 2024'' ''positive'' 0.5 [''AI'']])"
  using C10_single_malformed_record[of "exampleInsights ''Quarter One 2024'' ''positive'' 0.5 [''AI'']"
      "InvalidQuarterFormat ''Quarter One 2024''"]
  by (simp add: parseQuarter_Quarter_One)

section \<open>Properties of the transcript collector\<close>

lemma length_scenarios: "length scenarios = 4"
  by (simp add: scenarios_def)

lemma length_slice0:
  "int (length (slice0 xs n)) = (if n < 0 then max 0 (int (length xs) + n) else min n (int (length xs)))"
  by (auto simp: slice0_def)

lemma slice0_nth: "k < length (slice0 xs n) \<Longrightarrow> slice0 xs n ! k = xs ! k"
  by (auto simp: slice0_def split: if_splits)

lemma generateRealisticSampleData_length:
  "length (generateRealisticSampleData dates n) = length (slice0 scenarios n)"
  by (simp add: generateRealisticSampleData_def Let_def)

lemma generateRealisticSampleData_eq:
  "generateRealisticSampleData dates n =
     map (\<lambda>k. sampleTranscript dates (scenarios ! k) k) [0 ..< length (slice0 scenarios n)]"
  by (simp add: generateRealisticSampleData_def Let_def slice0_nth)

lemma map_nth_prefix:
  "m \<le> length xs \<Longrightarrow> map (\<lambda>k. f (xs ! k)) [0 ..< m] = take m (map f xs)"
  by (rule nth_equalityI) auto

lemma scrapeFrom_all_fail:
  "\<forall>k. attempt web u k = None \<Longrightarrow> scrapeFrom web u left retries = None"
  by (induction left arbitrary: retries) auto

lemma map_filter_all_None: "\<forall>x \<in> set xs. f x = None \<Longrightarrow> List.map_filter f xs = []"
  by (induction xs) (auto simp: List.map_filter_simps)

lemma findNvidiaTranscriptUrls_no_candidates:
  "searchSeekingAlpha web = [] \<Longrightarrow> searchYahooFinance web = [] \<Longrightarrow>
     findNvidiaTranscriptUrls web n = []"
  by (simp add: findNvidiaTranscriptUrls_def searchMotleyFool_def slice0_def Let_def)

lemma collect_fallback:
  assumes "(searchSeekingAlpha web = [] \<and> searchYahooFinance web = []) \<or>
           (\<forall>u k. attempt web u k = None)"
  shows "collectNvidiaTranscripts web dates n = generateRealisticSampleData dates n"
  using assms
proof
  assume "searchSeekingAlpha web = [] \<and> searchYahooFinance web = []"
  then show ?thesis
    by (simp add: collectNvidiaTranscripts_def findNvidiaTranscriptUrls_no_candidates
        tryAlternativeSources_def)
next
  assume "\<forall>u k. attempt web u k = None"
  then have "List.map_filter (scrapeTranscript web) us = []" for us
    by (intro map_filter_all_None) (simp add: scrapeTranscript_def scrapeFrom_all_fail)
  then show ?thesis
    by (simp add: collectNvidiaTranscripts_def tryAlternativeSources_def Let_def)
qed

lemma transcript_quarter_sample [simp]:
  "transcript_quarter (sampleTranscript dates scenario k) = scenario_quarter scenario"
  by (simp add: sampleTranscript_def Let_def)

text \<open>
  C6 as stated asks for exactly \<open>n\<close> synthetic documents for every \<open>n\<close>, the table being
  cycled when \<open>n\<close> exceeds its size; five requested documents give four.
\<close>

theorem C6_counterexample:
  "\<not> (\<forall>web dates n.
        searchSeekingAlpha web = [] \<and> searchYahooFinance web = [] \<and> (\<forall>u k. attempt web u k = None) \<longrightarrow>
        int (length (collectNvidiaTranscripts web dates n)) = n)"
proof
  assume a: "\<forall>web dates n.
        searchSeekingAlpha web = [] \<and> searchYahooFinance web = [] \<and> (\<forall>u k. attempt web u k = None) \<longrightarrow>
        int (length (collectNvidiaTranscripts web dates n)) = n"
  have "searchSeekingAlpha deadWeb = [] \<and> searchYahooFinance deadWeb = [] \<and>
        (\<forall>u k. attempt deadWeb u k = None)"
    by (simp add: deadWeb_def)
  with a have "int (length (collectNvidiaTranscripts deadWeb exampleDates 5)) = 5" by blast
  moreover have "collectNvidiaTranscripts deadWeb exampleDates 5 = generateRealisticSampleData exampleDates 5"
    by (rule collect_fallback) (simp add: deadWeb_def)
  ultimately show False
    using length_slice0[of scenarios 5]
    by (simp add: generateRealisticSampleData_length length_scenarios)
qed

text \<open>
  C6, amended. When no search returns a candidate, or every attempt to fetch a
  candidate fails, \<open>collectNvidiaTranscripts(n)\<close> returns the synthetic documents of the
  first \<open>min(n, 4)\<close> scenarios of the table, in table order (for a negative \<open>n\<close>, of the
  first \<open>4 + n\<close>): the table is truncated and never cycled. A second run with the same
  \<open>n\<close> gives the same number of documents with the same scenario at every position.
\<close>

theorem C6_fallback:
  assumes "(searchSeekingAlpha web = [] \<and> searchYahooFinance web = []) \<or>
           (\<forall>u k. attempt web u k = None)"
  shows "collectNvidiaTranscripts web dates n =
           map (\<lambda>k. sampleTranscript dates (scenarios ! k) k)
               [0 ..< length (collectNvidiaTranscripts web dates n)] \<and>
         int (length (collectNvidiaTranscripts web dates n)) =
           (if n < 0 then max 0 (4 + n) else min n 4) \<and>
         map transcript_quarter (collectNvidiaTranscripts web dates n) =
           take (length (collectNvidiaTranscripts web dates n))
                [''Q4 2024'', ''Q3 2024'', ''Q2 2024'', ''Q1 2024''] \<and>
         ((searchSeekingAlpha web' = [] \<and> searchYahooFinance web' = []) \<or>
          (\<forall>u k. attempt web' u k = None) \<longrightarrow>
            map transcript_quarter (collectNvidiaTranscripts web' dates' n) =
            map transcript_quarter (collectNvidiaTranscripts web dates n))"
proof -
  have eq: "collectNvidiaTranscripts web dates n = generateRealisticSampleData dates n"
    using assms by (rule collect_fallback)
  have len: "int (length (generateRealisticSampleData d n)) =
      (if n < 0 then max 0 (4 + n) else min n 4)" for d
    using length_slice0[of scenarios n]
    by (simp add: generateRealisticSampleData_length length_scenarios)
  have q: "map transcript_quarter (generateRealisticSampleData d n) =
      take (length (generateRealisticSampleData d n))
        [''Q4 2024'', ''Q3 2024'', ''Q2 2024'', ''Q1 2024'']" for d
  proof -
    have "map transcript_quarter (generateRealisticSampleData d n) =
        map (\<lambda>k. scenario_quarter (scenarios ! k)) [0 ..< length (slice0 scenarios n)]"
      by (simp add: generateRealisticSampleData_eq comp_def)
    also have "\<dots> = take (length (slice0 scenarios n)) (map scenario_quarter scenarios)"
    proof -
      have "length (slice0 scenarios n) \<le> length scenarios"
        by (auto simp: slice0_def)
      then show ?thesis
        by (rule map_nth_prefix)
    qed
    finally show ?thesis
      by (simp add: generateRealisticSampleData_length scenarios_def)
  qed
  have other: "map transcript_quarter (collectNvidiaTranscripts web' dates' n) =
      map transcript_quarter (collectNvidiaTranscripts web dates n)"
    if "(searchSeekingAlpha web' = [] \<and> searchYahooFinance web' = []) \<or>
        (\<forall>u k. attempt web' u k = None)"
  proof -
    from that have "collectNvidiaTranscripts web' dates' n = generateRealisticSampleData dates' n"
      by (rule collect_fallback)
    with eq q[of dates] q[of dates'] show ?thesis
      by (simp add: generateRealisticSampleData_length)
  qed
  have first: "collectNvidiaTranscripts web dates n =
      map (\<lambda>k. sampleTranscript dates (scenarios ! k) k)
          [0 ..< length (collectNvidiaTranscripts web dates n)]"
    unfolding eq by (simp add: generateRealisticSampleData_eq)
  from first len[of dates] q[of dates] other show ?thesis
    unfolding eq by blast
qed

theorem C6_fallback_witness:
  "length (collectNvidiaTranscripts deadWeb exampleDates 2) = 2 \<and>
   map transcript_quarter (collectNvidiaTranscripts deadWeb exampleDates 2) = [''Q4 2024'', ''Q3 2024''] \<and>
   map transcript_quarter
     (collectNvidiaTranscripts (deadWeb\<lparr>searchSeekingAlpha := [exampleUrlInfo]\<rparr>)
        (exampleDates\<lparr>clock := (\<lambda>k. ''2027-01-01T00:00:00.000Z'')\<rparr>) 2) =
     [''Q4 2024'', ''Q3 2024'']"
proof -
  have dead: "(searchSeekingAlpha deadWeb = [] \<and> searchYahooFinance deadWeb = []) \<or>
      (\<forall>u k. attempt deadWeb u k = None)"
    by (simp add: deadWeb_def)
  have dead': "(searchSeekingAlpha (deadWeb\<lparr>searchSeekingAlpha := [exampleUrlInfo]\<rparr>) = [] \<and>
       searchYahooFinance (deadWeb\<lparr>searchSeekingAlpha := [exampleUrlInfo]\<rparr>) = []) \<or>
      (\<forall>v k. attempt (deadWeb\<lparr>searchSeekingAlpha := [exampleUrlInfo]\<rparr>) v k = None)"
    by (simp add: deadWeb_def)
  note inst = C6_fallback[OF dead, of exampleDates 2 "deadWeb\<lparr>searchSeekingAlpha := [exampleUrlInfo]\<rparr>"
      "exampleDates\<lparr>clock := (\<lambda>k. ''2027-01-01T00:00:00.000Z'')\<rparr>"]
  from inst have len: "length (collectNvidiaTranscripts deadWeb exampleDates 2) = 2"
    by simp
  from inst have "map transcript_quarter (collectNvidiaTranscripts deadWeb exampleDates 2) =
      take (length (collectNvidiaTranscripts deadWeb exampleDates 2))
        [''Q4 2024'', ''Q3 2024'', ''Q2 2024'', ''Q1 2024'']"
    by blast
  with len have q: "map transcript_quarter (collectNvidiaTranscripts deadWeb exampleDates 2) =
      [''Q4 2024'', ''Q3 2024'']"
    by simp
  from inst dead' have "map transcript_quarter
     (collectNvidiaTranscripts (deadWeb\<lparr>searchSeekingAlpha := [exampleUrlInfo]\<rparr>)
        (exampleDates\<lparr>clock := (\<lambda>k. ''2027-01-01T00:00:00.000Z'')\<rparr>) 2) =
     map transcript_quarter (collectNvidiaTranscripts deadWeb exampleDates 2)"
    by blast
  with len q show ?thesis by simp
qed

section \<open>Properties of the analysis engine\<close>

lemma analyzeMgmtSentiment_cases:
  "analyzeMgmtSentiment c = Inr (case c of Parsed v \<Rightarrow> v | _ \<Rightarrow> getDefaultSentiment)"
  by (simp add: analyzeMgmtSentiment_def requestJSON_def split: Completion.splits)

lemma analyzeQASentiment_cases:
  "analyzeQASentiment c = Inr (case c of Parsed v \<Rightarrow> v | _ \<Rightarrow> getDefaultSentiment)"
  by (simp add: analyzeQASentiment_def requestJSON_def split: Completion.splits)

lemma extractStrategicFocus_cases:
  "extractStrategicFocus c =
     Inr (case c of
            Parsed v \<Rightarrow> if v = JNull then getDefaultStrategicFocus else themesOrEmpty v
          | _ \<Rightarrow> getDefaultStrategicFocus)"
  by (simp add: extractStrategicFocus_def requestJSON_def themesProperty_def themesOrEmpty_def
      split: Completion.splits json.splits option.splits)

text \<open>
  C9 as stated asks that an answer which violates the schema is replaced by the
  default; an answer that parses to the empty object is handed on as it is.
\<close>

theorem C9_counterexample:
  "\<not> (\<forall>service now transcript.
        \<exists>r. analyzeTranscript service now transcript = Inr r \<and>
            (\<forall>v. managementCompletion service = Parsed v \<and> \<not> conformsToSentimentAnalysis v \<longrightarrow>
                 parsed_managementSentiment r = getDefaultSentiment))"
proof
  assume a: "\<forall>service now transcript.
        \<exists>r. analyzeTranscript service now transcript = Inr r \<and>
            (\<forall>v. managementCompletion service = Parsed v \<and> \<not> conformsToSentimentAnalysis v \<longrightarrow>
                 parsed_managementSentiment r = getDefaultSentiment)"
  let ?service = "\<lparr> managementCompletion = Parsed (JObject []), qaCompletion = Rejected,
                    themesCompletion = Rejected \<rparr>"
  from a obtain r where r: "analyzeTranscript ?service [] t = Inr r"
    and d: "\<forall>v. managementCompletion ?service = Parsed v \<and> \<not> conformsToSentimentAnalysis v \<longrightarrow>
                 parsed_managementSentiment r = getDefaultSentiment"
    by blast
  have "\<not> conformsToSentimentAnalysis (JObject [])"
    by (simp add: conformsToSentimentAnalysis_def)
  with d have "parsed_managementSentiment r = getDefaultSentiment" by simp
  moreover from r have "parsed_managementSentiment r = JObject []"
    by (auto simp: analyzeTranscript_def analyzeMgmtSentiment_cases analyzeQASentiment_cases
        extractStrategicFocus_cases)
  ultimately show False by (simp add: getDefaultSentiment_def)
qed

text \<open>
  C9, amended. For every transcript and every outcome of the three requests
  \<open>analyzeTranscript\<close> returns a record and throws nothing. Each analysis field depends
  on its own request only: a request that fails, or whose answer is not JSON text, is
  replaced by the default sentiment (or, for the themes, by the single generic theme,
  also when the answer parses to \<open>null\<close>); an answer that parses is passed on as parsed,
  without any check against the schema (for the themes: its \<open>themes\<close> property, or the
  empty list when that is missing or falsy).
\<close>

theorem C9_always_a_record:
  "\<exists>r. analyzeTranscript service now transcript = Inr r \<and>
       parsed_transcriptId r = transcript_id transcript \<and>
       parsed_quarter r = transcript_quarter transcript \<and>
       parsed_managementSentiment r =
         (case managementCompletion service of Parsed v \<Rightarrow> v | _ \<Rightarrow> getDefaultSentiment) \<and>
       parsed_qaSentiment r =
         (case qaCompletion service of Parsed v \<Rightarrow> v | _ \<Rightarrow> getDefaultSentiment) \<and>
       parsed_strategicFocuses r =
         (case themesCompletion service of
            Parsed v \<Rightarrow> if v = JNull then getDefaultStrategicFocus else themesOrEmpty v
          | _ \<Rightarrow> getDefaultStrategicFocus)"
  by (simp add: analyzeTranscript_def analyzeMgmtSentiment_cases analyzeQASentiment_cases
      extractStrategicFocus_cases)

theorem C9_always_a_record_witness:
  "\<exists>r. analyzeTranscript
          \<lparr> managementCompletion = Rejected, qaCompletion = NotJSON,
            themesCompletion = Parsed (JObject [(''themes'', JArray [JString ''AI''])]) \<rparr>
          ''2026-11-03T10:00:00.000Z'' (sampleTranscript exampleDates (scenarios ! 0) 0) = Inr r \<and>
       parsed_quarter r = ''Q4 2024'' \<and>
       parsed_managementSentiment r = getDefaultSentiment \<and>
       parsed_qaSentiment r = getDefaultSentiment \<and>
       parsed_strategicFocuses r = JArray [JString ''AI'']"
  using C9_always_a_record[of "\<lparr> managementCompletion = Rejected, qaCompletion = NotJSON,
            themesCompletion = Parsed (JObject [(''themes'', JArray [JString ''AI''])]) \<rparr>"
          "''2026-11-03T10:00:00.000Z''" "sampleTranscript exampleDates (scenarios ! 0) 0"]
  by (auto simp: themesOrEmpty_def truthy_def scenarios_def)

end
